theory Spec2Isabelle
  imports Main
begin

section \<open>The GitHub data loader (data_loader.py)\<close>

text \<open>
  The loader keeps two cached objects (the readings as a pandas DataFrame and the parsed
  hive configuration), the two last seen content hashes and a monitoring flag. The
  embedding passes the state explicitly. Objects that the program shares by reference
  live in a store: a cache field holds an address, never a value, so that copying
  (\<^verbatim>\<open>DataFrame.copy()\<close>) and aliasing (\<^verbatim>\<open>return ..., self.config_cache\<close>) are visible.
  Console output (\<^verbatim>\<open>print\<close>) is not modelled; the expressions a \<^verbatim>\<open>print\<close> evaluates are,
  where they can raise.
\<close>

subsection \<open>Values, errors and the outside world\<close>

text \<open>
  A parsed JSON value. Numbers are integers here: no function of the module computes
  with them.
\<close>

datatype json =
    JNull
  | JBool bool
  | JNum int
  | JStr string
  | JArr "json list"
  | JObj "(string \<times> json) list"

text \<open>
  The Python exception classes the module raises or catches; the string is \<^verbatim>\<open>str(e)\<close>.
  The messages of the interpreter's own exceptions are shortened.
\<close>

datatype error =
    ValueError string
  | FileNotFoundError string
  | TypeError string
  | KeyError string
  | AttributeError string
  | Exception string

fun str_of_error :: "error \<Rightarrow> string" where
  "str_of_error (ValueError m) = m"
| "str_of_error (FileNotFoundError m) = m"
| "str_of_error (TypeError m) = m"
| "str_of_error (KeyError m) = m"
| "str_of_error (AttributeError m) = m"
| "str_of_error (Exception m) = m"

text \<open>
  What \<^verbatim>\<open>requests.get\<close> gives: an exception of the transport, or a response with its
  status code and body.
\<close>

datatype response = RequestFailed string | Response nat string

text \<open>
  The world outside the module, as seen by one call: the remote host and the library
  functions the module applies to what it fetched (\<^verbatim>\<open>json.loads\<close>, \<^verbatim>\<open>pd.DataFrame\<close>,
  the assignment \<^verbatim>\<open>df['timestamp'] = pd.to_datetime(df['timestamp'])\<close>, and the builtins
  \<^verbatim>\<open>min\<close>, \<^verbatim>\<open>max\<close> and \<^verbatim>\<open>str\<close> on parsed values).

  The type \<open>'df\<close> is a DataFrame's own data: its index, its columns and the cells of its
  typed columns. A cell of an object column refers to a Python object, and the frame
  does not own it. So \<^verbatim>\<open>pd.DataFrame\<close> gives the frame's own data together with the
  objects (the lists and dicts inside the parsed rows) that its object cells refer to.
\<close>

record 'df env =
  requests_get :: "string \<Rightarrow> (string \<times> string) list \<Rightarrow> response"
  json_loads :: "string \<Rightarrow> string + json"
  pd_DataFrame :: "json \<Rightarrow> error + 'df \<times> json list"
  pd_to_datetime :: "'df \<times> json list \<Rightarrow> error + 'df \<times> json list"
  py_min :: "json list \<Rightarrow> error + json"
  py_max :: "json list \<Rightarrow> error + json"
  py_str :: "json \<Rightarrow> string"

subsection \<open>The loader object and the store\<close>

type_synonym addr = nat

text \<open>
  The fields of \<^verbatim>\<open>GitHubDataLoader\<close> (the module has one instance, \<^verbatim>\<open>github_loader\<close>),
  followed by what the program's effects act on: the DataFrame objects and the parsed
  JSON objects allocated so far (an address is an index), the number of monitor threads
  that are alive, and the URLs requested so far. A Python \<^verbatim>\<open>None\<close> in a field is \<open>None\<close>.
  For the DataFrame at an address, \<open>frames\<close> has its own data and \<open>frame_refs\<close> the
  addresses, in \<open>objects\<close>, of the objects that its object cells refer to.
\<close>

record 'df state =
  repo_owner :: string
  repo_name :: string
  token :: "string option"
  base_url :: string
  headers :: "(string \<times> string) list"
  data_cache :: "addr option"
  config_cache :: "addr option"
  last_data_hash :: "json option"
  last_config_hash :: "json option"
  check_interval :: nat
  monitoring :: bool
  frames :: "'df list"
  frame_refs :: "addr list list"
  objects :: "json list"
  threads :: nat
  net_log :: "string list"

definition truthy :: "string option \<Rightarrow> bool" where
  "truthy v = (case v of None \<Rightarrow> False | Some x \<Rightarrow> x \<noteq> [])"

fun join_comma :: "string list \<Rightarrow> string" where
  "join_comma [] = []"
| "join_comma [x] = x"
| "join_comma (x # y # ys) = x @ '', '' @ join_comma (y # ys)"

text \<open>\<^verbatim>\<open>__init__\<close>, from the three environment variables.\<close>

definition init :: "string option \<Rightarrow> string option \<Rightarrow> string option \<Rightarrow> error + 'df state" where
  "init owner name tok =
     (if \<not> (truthy owner \<and> truthy name) then
        Inl (ValueError (''Missing required environment variables: '' @
               join_comma ((if \<not> truthy owner then [''GITHUB_REPO_OWNER''] else []) @
                           (if \<not> truthy name then [''GITHUB_REPO_NAME''] else []))))
      else
        Inr \<lparr> repo_owner = the owner,
              repo_name = the name,
              token = tok,
              base_url = ''https://api.github.com/repos/'' @ the owner @ ''/'' @ the name,
              headers = (if truthy tok then [(''Authorization'', ''token '' @ the tok)] else []) @
                        [(''Accept'', ''application/vnd.github.v3+json'')],
              data_cache = None,
              config_cache = None,
              last_data_hash = None,
              last_config_hash = None,
              check_interval = 30,
              monitoring = False,
              frames = [],
              frame_refs = [],
              objects = [],
              threads = 0,
              net_log = [] \<rparr>)"

subsection \<open>Python operations on parsed JSON\<close>

text \<open>A parsed \<^verbatim>\<open>null\<close> is Python's \<^verbatim>\<open>None\<close>.\<close>

fun py_value :: "json \<Rightarrow> json option" where
  "py_value JNull = None"
| "py_value v = Some v"

text \<open>A dict built from pairs keeps the last binding of a key.\<close>

definition dict_lookup :: "(string \<times> json) list \<Rightarrow> string \<Rightarrow> json option" where
  "dict_lookup kvs k = map_of (rev kvs) k"

text \<open>
  \<^verbatim>\<open>file_data.get('sha')\<close> inside \<^verbatim>\<open>try ... except Exception: return None\<close>: only a dict
  has \<^verbatim>\<open>get\<close>, a missing key gives \<^verbatim>\<open>None\<close>.
\<close>

fun get_sha :: "json \<Rightarrow> json option" where
  "get_sha (JObj kvs) = (case dict_lookup kvs ''sha'' of None \<Rightarrow> None | Some v \<Rightarrow> py_value v)"
| "get_sha _ = None"

fun py_len :: "json \<Rightarrow> error + nat" where
  "py_len (JArr xs) = Inr (length xs)"
| "py_len (JObj kvs) = Inr (length kvs)"
| "py_len (JStr s) = Inr (length s)"
| "py_len _ = Inl (TypeError ''object has no len()'')"

fun py_iter :: "json \<Rightarrow> error + json list" where
  "py_iter (JArr xs) = Inr xs"
| "py_iter (JObj kvs) = Inr (map (\<lambda>kv. JStr (fst kv)) kvs)"
| "py_iter (JStr s) = Inr (map (\<lambda>c. JStr [c]) s)"
| "py_iter _ = Inl (TypeError ''object is not iterable'')"

text \<open>\<^verbatim>\<open>item[key]\<close> with a string key.\<close>

fun py_getitem :: "json \<Rightarrow> string \<Rightarrow> error + json" where
  "py_getitem (JObj kvs) k =
     (case dict_lookup kvs k of None \<Rightarrow> Inl (KeyError k) | Some v \<Rightarrow> Inr v)"
| "py_getitem (JArr xs) k = Inl (TypeError ''list indices must be integers or slices, not str'')"
| "py_getitem (JStr s) k = Inl (TypeError ''string indices must be integers'')"
| "py_getitem _ k = Inl (TypeError ''object is not subscriptable'')"

text \<open>A list comprehension \<^verbatim>\<open>[item[key] for item in xs]\<close>: the first failure ends it.\<close>

fun getitem_all :: "json list \<Rightarrow> string \<Rightarrow> error + json list" where
  "getitem_all [] k = Inr []"
| "getitem_all (x # xs) k =
     (case py_getitem x k of
        Inl e \<Rightarrow> Inl e
      | Inr v \<Rightarrow> (case getitem_all xs k of Inl e \<Rightarrow> Inl e | Inr vs \<Rightarrow> Inr (v # vs)))"

definition is_space :: "char \<Rightarrow> bool" where
  "is_space c = (c \<in> set [CHR 0x09, CHR 0x0A, CHR 0x0B, CHR 0x0C, CHR 0x0D,
                           CHR 0x1C, CHR 0x1D, CHR 0x1E, CHR 0x1F, CHR '' ''])"

definition strip :: "string \<Rightarrow> string" where
  "strip s = rev (dropWhile is_space (rev (dropWhile is_space s)))"

fun str_nat :: "nat \<Rightarrow> string" where
  "str_nat n = (if n < 10 then [char_of (48 + n)]
                else str_nat (n div 10) @ [char_of (48 + n mod 10)])"

subsection \<open>Fetching\<close>

definition data_file :: string where
  "data_file = ''beehive_data.json''"

definition config_file :: string where
  "config_file = ''hives_config.json''"

definition contents_url :: "'df state \<Rightarrow> string \<Rightarrow> string" where
  "contents_url s filename = base_url s @ ''/contents/'' @ filename"

definition raw_url :: "'df state \<Rightarrow> string \<Rightarrow> string" where
  "raw_url s filename =
     ''https://raw.githubusercontent.com/'' @ repo_owner s @ ''/'' @ repo_name s @
     ''/main/'' @ filename"

text \<open>
  \<^verbatim>\<open>_get_file_hash_from_github\<close>: every failure (transport, status, body that is not
  JSON, body that is not a dict) is \<^verbatim>\<open>None\<close>; the function never raises.
\<close>

definition get_file_hash_from_github ::
  "'df env \<Rightarrow> 'df state \<Rightarrow> string \<Rightarrow> json option \<times> 'df state" where
  "get_file_hash_from_github w s filename =
     (let url = contents_url s filename;
          s' = s\<lparr>net_log := net_log s @ [url]\<rparr>
      in case requests_get w url (headers s) of
           RequestFailed m \<Rightarrow> (None, s')
         | Response code body \<Rightarrow>
             (if code = 200 then
                (case json_loads w body of
                   Inl m \<Rightarrow> (None, s')
                 | Inr file_data \<Rightarrow> (get_sha file_data, s'))
              else (None, s')))"

text \<open>\<^verbatim>\<open>_fetch_file_from_github_raw\<close>: the request carries no headers.\<close>

definition fetch_file_from_github_raw ::
  "'df env \<Rightarrow> 'df state \<Rightarrow> string \<Rightarrow> (error + string) \<times> 'df state" where
  "fetch_file_from_github_raw w s filename =
     (let url = raw_url s filename;
          s' = s\<lparr>net_log := net_log s @ [url]\<rparr>
      in case requests_get w url [] of
           RequestFailed m \<Rightarrow>
             (Inl (Exception (''Error fetching file '' @ filename @ '' from GitHub: '' @ m)), s')
         | Response code body \<Rightarrow>
             (if code = 200 then (Inr body, s')
              else if code = 404 then
                (Inl (FileNotFoundError
                       (''File '' @ filename @ '' not found in GitHub repository'')), s')
              else
                (Inl (Exception (''Error fetching file '' @ filename @ '' from GitHub: '' @
                                 ''Error fetching '' @ filename @ '': '' @ str_nat code)), s')))"

definition load_json_from_github ::
  "'df env \<Rightarrow> 'df state \<Rightarrow> string \<Rightarrow> (error + json) \<times> 'df state" where
  "load_json_from_github w s filename =
     (case fetch_file_from_github_raw w s filename of
        (Inl e, s') \<Rightarrow> (Inl e, s')
      | (Inr content, s') \<Rightarrow>
          (if content = [] \<or> strip content = [] then
             (Inl (ValueError (''File '' @ filename @ '' is empty or contains no content'')), s')
           else
             (case json_loads w content of
                Inl m \<Rightarrow>
                  (Inl (ValueError (''Error parsing JSON from '' @ filename @ '': '' @ m)), s')
              | Inr v \<Rightarrow> (Inr v, s'))))"

subsection \<open>Change detection\<close>

text \<open>
  \<^verbatim>\<open>check_for_updates\<close>. Nothing in the \<^verbatim>\<open>try\<close> block raises (the hash lookup catches
  everything itself), so the handler that returns \<^verbatim>\<open>False\<close> has no branch here.
  Hashes are compared with \<^verbatim>\<open>!=\<close>; on the strings the host sends this is equality of
  values.
\<close>

definition check_for_updates :: "'df env \<Rightarrow> 'df state \<Rightarrow> bool \<times> 'df state" where
  "check_for_updates w s =
     (let (data_hash, s1) = get_file_hash_from_github w s data_file;
          (config_hash, s2) = get_file_hash_from_github w s1 config_file;
          data_updated = (data_hash \<noteq> last_data_hash s2 \<and> last_data_hash s2 \<noteq> None);
          config_updated = (config_hash \<noteq> last_config_hash s2 \<and> last_config_hash s2 \<noteq> None);
          s3 = s2\<lparr>last_data_hash := data_hash, last_config_hash := config_hash\<rparr>
      in (data_updated \<or> config_updated, s3))"

definition force_check_updates :: "'df env \<Rightarrow> 'df state \<Rightarrow> bool \<times> 'df state" where
  "force_check_updates w s = check_for_updates w s"

subsection \<open>The cache\<close>

text \<open>Binding a parsed value to \<^verbatim>\<open>self.config_cache\<close>: \<^verbatim>\<open>null\<close> is \<^verbatim>\<open>None\<close>, anything else an object.\<close>

definition set_config_cache :: "json \<Rightarrow> 'df state \<Rightarrow> 'df state" where
  "set_config_cache v s =
     (case py_value v of
        None \<Rightarrow> s\<lparr>config_cache := None\<rparr>
      | Some o' \<Rightarrow> s\<lparr>objects := objects s @ [o'], config_cache := Some (length (objects s))\<rparr>)"

text \<open>
  Binding the new DataFrame to \<^verbatim>\<open>self.data_cache\<close>. The objects its cells refer to were
  made by \<^verbatim>\<open>json.loads\<close>; they enter the store here, where the frame becomes reachable.
\<close>

definition set_data_cache :: "'df \<times> json list \<Rightarrow> 'df state \<Rightarrow> 'df state" where
  "set_data_cache df s =
     s\<lparr>frames := frames s @ [fst df],
       frame_refs := frame_refs s @
         [[length (objects s) ..< length (objects s) + length (snd df)]],
       objects := objects s @ snd df,
       data_cache := Some (length (frames s))\<rparr>"

text \<open>
  The body of the \<^verbatim>\<open>try\<close> in \<^verbatim>\<open>load_data_with_cache\<close>, statement by statement; the state
  returned with an error is the state at the statement that raised. The last statement
  prints \<^verbatim>\<open>len(df)\<close> and \<^verbatim>\<open>len(hives_config)\<close>, after both cache fields are assigned.
\<close>

definition reload :: "'df env \<Rightarrow> 'df state \<Rightarrow> (error + unit) \<times> 'df state" where
  "reload w s =
     (case load_json_from_github w s data_file of
        (Inl e, s1) \<Rightarrow> (Inl e, s1)
      | (Inr data, s1) \<Rightarrow>
          (case load_json_from_github w s1 config_file of
             (Inl e, s2) \<Rightarrow> (Inl e, s2)
           | (Inr hives_config, s2) \<Rightarrow>
               (case pd_DataFrame w data of
                  Inl e \<Rightarrow> (Inl e, s2)
                | Inr df0 \<Rightarrow>
                    (case pd_to_datetime w df0 of
                       Inl e \<Rightarrow> (Inl e, s2)
                     | Inr df \<Rightarrow>
                         (let s3 = set_data_cache df s2;
                              s4 = set_config_cache hives_config s3
                          in case py_len hives_config of
                               Inl e \<Rightarrow> (Inl e, s4)
                             | Inr n \<Rightarrow> (Inr (), s4))))))"

text \<open>
  \<^verbatim>\<open>return self.data_cache.copy(), self.config_cache\<close>: a new DataFrame and the same
  config. \<^verbatim>\<open>copy()\<close> (deep by default) copies the frame's own data; it does not copy the
  Python objects that object cells refer to, so the new frame refers to the same ones.
\<close>

definition return_cached :: "'df state \<Rightarrow> (error + addr \<times> addr option) \<times> 'df state" where
  "return_cached s =
     (case data_cache s of
        None \<Rightarrow> (Inl (AttributeError ''NoneType object has no attribute copy''), s)
      | Some a \<Rightarrow>
          (Inr (length (frames s), config_cache s),
           s\<lparr>frames := frames s @ [frames s ! a],
             frame_refs := frame_refs s @ [frame_refs s ! a]\<rparr>))"

definition load_data_with_cache ::
  "'df env \<Rightarrow> 'df state \<Rightarrow> (error + addr \<times> addr option) \<times> 'df state" where
  "load_data_with_cache w s =
     (let (need, s0) =
            (if data_cache s = None \<or> config_cache s = None then (True, s)
             else check_for_updates w s)
      in if need then
           (case reload w s0 of
              (Inr u, s1) \<Rightarrow> return_cached s1
            | (Inl e, s1) \<Rightarrow>
                (if data_cache s1 \<noteq> None \<and> config_cache s1 \<noteq> None then return_cached s1
                 else (Inl e, s1)))
         else return_cached s0)"

subsection \<open>Monitoring\<close>

text \<open>
  \<^verbatim>\<open>start_monitoring\<close> sets the flag and starts one more thread; \<^verbatim>\<open>stop_monitoring\<close> only
  clears the flag. A thread that runs \<^verbatim>\<open>monitor_loop\<close> tests the flag at the head of its
  \<^verbatim>\<open>while\<close>: \<open>monitor_loop_step\<close> is one such test by one live thread, followed by the
  body (a check, then the sleep) or by the end of the thread.
\<close>

definition start_monitoring :: "'df state \<Rightarrow> 'df state" where
  "start_monitoring s =
     (if monitoring s then s else s\<lparr>monitoring := True, threads := threads s + 1\<rparr>)"

definition stop_monitoring :: "'df state \<Rightarrow> 'df state" where
  "stop_monitoring s = s\<lparr>monitoring := False\<rparr>"

definition monitor_loop_step :: "'df env \<Rightarrow> 'df state \<Rightarrow> 'df state" where
  "monitor_loop_step w s =
     (if monitoring s then snd (check_for_updates w s) else s\<lparr>threads := threads s - 1\<rparr>)"

subsection \<open>The module's functions\<close>

fun rewrap :: "error \<Rightarrow> error" where
  "rewrap (ValueError m) = ValueError (''GitHub configuration error: '' @ m)"
| "rewrap (FileNotFoundError m) =
     FileNotFoundError (m @ ''. Please ensure the JSON files exist in your GitHub repository.'')"
| "rewrap e = Exception (''Error loading data from GitHub: '' @ str_of_error e)"

definition load_beehive_data_from_json ::
  "'df env \<Rightarrow> 'df state \<Rightarrow> (error + addr \<times> addr option) \<times> 'df state" where
  "load_beehive_data_from_json w s =
     (let s1 = (if \<not> monitoring s then start_monitoring s else s)
      in case load_data_with_cache w s1 of
           (Inl e, s2) \<Rightarrow> (Inl (rewrap e), s2)
         | (Inr r, s2) \<Rightarrow> (Inr r, s2))"

definition refresh_data ::
  "'df env \<Rightarrow> 'df state \<Rightarrow> (error + addr \<times> addr option) \<times> 'df state" where
  "refresh_data w s =
     load_beehive_data_from_json w (s\<lparr>data_cache := None, config_cache := None\<rparr>)"

record data_info =
  source :: string
  total_records :: nat
  num_hives :: nat
  date_range :: string
  hive_names :: "json list"
  auto_update :: bool

text \<open>The body of the \<^verbatim>\<open>try\<close> in \<^verbatim>\<open>get_data_info\<close>, once both files are loaded.\<close>

definition build_info :: "'df env \<Rightarrow> bool \<Rightarrow> json \<Rightarrow> json \<Rightarrow> error + data_info" where
  "build_info w mon data hives_config =
     (case py_iter data of Inl e \<Rightarrow> Inl e | Inr items \<Rightarrow>
     (case getitem_all items ''timestamp'' of Inl e \<Rightarrow> Inl e | Inr timestamps \<Rightarrow>
     (case py_min w timestamps of Inl e \<Rightarrow> Inl e | Inr start_date \<Rightarrow>
     (case py_max w timestamps of Inl e \<Rightarrow> Inl e | Inr end_date \<Rightarrow>
     (case py_len data of Inl e \<Rightarrow> Inl e | Inr n \<Rightarrow>
     (case py_len hives_config of Inl e \<Rightarrow> Inl e | Inr h \<Rightarrow>
     (case py_iter hives_config of Inl e \<Rightarrow> Inl e | Inr hives \<Rightarrow>
     (case getitem_all hives ''name'' of Inl e \<Rightarrow> Inl e | Inr names \<Rightarrow>
        Inr \<lparr> source = ''github'',
              total_records = n,
              num_hives = h,
              date_range = py_str w start_date @ '' to '' @ py_str w end_date,
              hive_names = names,
              auto_update = mon \<rparr>))))))))"

text \<open>\<^verbatim>\<open>get_data_info\<close> returns the dict, or the message built in its handler.\<close>

definition get_data_info :: "'df env \<Rightarrow> 'df state \<Rightarrow> (string + data_info) \<times> 'df state" where
  "get_data_info w s =
     (let failed = (\<lambda>e. Inl (''Error getting data info from GitHub: '' @ str_of_error e))
      in case load_json_from_github w s data_file of
           (Inl e, s1) \<Rightarrow> (failed e, s1)
         | (Inr data, s1) \<Rightarrow>
             (case load_json_from_github w s1 config_file of
                (Inl e, s2) \<Rightarrow> (failed e, s2)
              | (Inr hives_config, s2) \<Rightarrow>
                  (case build_info w (monitoring s2) data hives_config of
                     Inl e \<Rightarrow> (failed e, s2)
                   | Inr info \<Rightarrow> (Inr info, s2))))"

subsection \<open>Well-formed stores and caller-side mutation\<close>

text \<open>A cache field that is set refers to an object that exists.\<close>

definition refs_valid :: "'df state \<Rightarrow> bool" where
  "refs_valid s =
     ((case data_cache s of None \<Rightarrow> True | Some a \<Rightarrow> a < length (frames s)) \<and>
      (case config_cache s of None \<Rightarrow> True | Some c \<Rightarrow> c < length (objects s)))"

text \<open>
  Every frame has its list of references, and every reference is to an object that exists.
\<close>

definition heap_ok :: "'df state \<Rightarrow> bool" where
  "heap_ok s =
     (length (frame_refs s) = length (frames s) \<and>
      list_all (list_all (\<lambda>r. r < length (objects s))) (frame_refs s))"

text \<open>The values of the objects that the cells of the frame at an address refer to.\<close>

definition held_values :: "'df state \<Rightarrow> addr \<Rightarrow> json list" where
  "held_values s a = map (\<lambda>r. objects s ! r) (frame_refs s ! a)"

text \<open>
  What a caller can do with a reference it was handed. \<open>mutate_frame\<close> changes a
  DataFrame's own data in place (\<^verbatim>\<open>df.drop(..., inplace=True)\<close>, \<^verbatim>\<open>df['weight'] = 0\<close>);
  \<open>mutate_object\<close> changes an object in place, the config
  (\<^verbatim>\<open>hives_config.append(...)\<close>) or one that a cell of a frame refers to
  (\<^verbatim>\<open>df.at[0, 'tags'].append(...)\<close>).
\<close>

definition mutate_frame :: "addr \<Rightarrow> ('df \<Rightarrow> 'df) \<Rightarrow> 'df state \<Rightarrow> 'df state" where
  "mutate_frame a g s = s\<lparr>frames := (frames s)[a := g (frames s ! a)]\<rparr>"

definition mutate_object :: "addr \<Rightarrow> (json \<Rightarrow> json) \<Rightarrow> 'df state \<Rightarrow> 'df state" where
  "mutate_object a g s = s\<lparr>objects := (objects s)[a := g (objects s ! a)]\<rparr>"

text \<open>
  The fetch or the parse of one of the two files fails: \<^verbatim>\<open>load_json_from_github\<close> raises
  for it.
\<close>

definition fetch_fails :: "'df env \<Rightarrow> 'df state \<Rightarrow> bool" where
  "fetch_fails w s =
     (isl (fst (load_json_from_github w s data_file)) \<or>
      isl (fst (load_json_from_github w s config_file)))"

subsection \<open>Example worlds\<close>

text \<open>
  A loader for the repository \<^verbatim>\<open>apiary/hives\<close> without a token, and worlds given by the
  responses the host serves (any other URL is answered 404). In these worlds a DataFrame
  is the parsed list of rows without the lists and dicts inside the rows, which are the
  objects it refers to; \<^verbatim>\<open>json.loads\<close> knows the texts listed in \<open>parses\<close>, and \<^verbatim>\<open>min\<close> and
  \<^verbatim>\<open>max\<close> take the ends of a list that is in order.
\<close>

definition example_loader :: "json state" where
  "example_loader = projr (init (Some ''apiary'') (Some ''hives'') None)"

definition q :: "string \<Rightarrow> string" where
  "q t = CHR 0x22 # t @ [CHR 0x22]"

definition sha_text :: "string \<Rightarrow> string" where
  "sha_text h = ''{'' @ q ''sha'' @ '': '' @ q h @ ''}''"

definition readings_text :: string where
  "readings_text =
     ''[{'' @ q ''hive_id'' @ '': 1, '' @ q ''timestamp'' @ '': '' @ q ''2024-05-01 06:00:00'' @ ''}]''"

definition readings_json :: json where
  "readings_json = JArr [JObj [(''hive_id'', JNum 1), (''timestamp'', JStr ''2024-05-01 06:00:00'')]]"

definition hives_text :: string where
  "hives_text = ''[{'' @ q ''id'' @ '': 1, '' @ q ''name'' @ '': '' @ q ''Hive A'' @ ''}]''"

definition hives_json :: json where
  "hives_json = JArr [JObj [(''id'', JNum 1), (''name'', JStr ''Hive A'')]]"

text \<open>Readings whose rows carry a list: the column \<^verbatim>\<open>tags\<close> is an object column.\<close>

definition tagged_text :: string where
  "tagged_text =
     ''[{'' @ q ''hive_id'' @ '': 1, '' @ q ''timestamp'' @ '': '' @ q ''2024-05-01 06:00:00'' @
     '', '' @ q ''tags'' @ '': ['' @ q ''queen'' @ '']}]''"

definition tagged_json :: json where
  "tagged_json =
     JArr [JObj [(''hive_id'', JNum 1), (''timestamp'', JStr ''2024-05-01 06:00:00''),
                 (''tags'', JArr [JStr ''queen''])]]"

fun is_nested :: "json \<Rightarrow> bool" where
  "is_nested (JArr xs) = True"
| "is_nested (JObj kvs) = True"
| "is_nested v = False"

fun row_own :: "json \<Rightarrow> json" where
  "row_own (JObj kvs) = JObj (filter (\<lambda>kv. \<not> is_nested (snd kv)) kvs)"
| "row_own v = v"

fun row_held :: "json \<Rightarrow> json list" where
  "row_held (JObj kvs) = filter is_nested (map snd kvs)"
| "row_held v = []"

definition parses :: "(string \<times> json) list" where
  "parses =
     [(readings_text, readings_json),
      (tagged_text, tagged_json),
      (hives_text, hives_json),
      (sha_text ''a1'', JObj [(''sha'', JStr ''a1'')]),
      (sha_text ''a2'', JObj [(''sha'', JStr ''a2'')]),
      (sha_text ''b1'', JObj [(''sha'', JStr ''b1'')])]"

definition world :: "(string \<times> response) list \<Rightarrow> json env" where
  "world served =
     \<lparr> requests_get =
         (\<lambda>url hs. case map_of served url of None \<Rightarrow> Response 404 ''404: Not Found'' | Some r \<Rightarrow> r),
       json_loads =
         (\<lambda>t. case map_of parses t of None \<Rightarrow> Inl ''Expecting value'' | Some v \<Rightarrow> Inr v),
       pd_DataFrame =
         (\<lambda>v. case v of
                 JArr rows \<Rightarrow> Inr (JArr (map row_own rows), concat (map row_held rows))
               | _ \<Rightarrow> Inl (ValueError ''DataFrame constructor not properly called!'')),
       pd_to_datetime =
         (\<lambda>df. case py_iter (fst df) of
                  Inl e \<Rightarrow> Inl e
                | Inr rows \<Rightarrow>
                    (case getitem_all rows ''timestamp'' of
                       Inl e \<Rightarrow> Inl (KeyError ''timestamp'')
                     | Inr ts \<Rightarrow> Inr df)),
       py_min =
         (\<lambda>xs. case xs of [] \<Rightarrow> Inl (ValueError ''min() arg is an empty sequence'') | x # ys \<Rightarrow> Inr x),
       py_max =
         (\<lambda>xs. case xs of [] \<Rightarrow> Inl (ValueError ''max() arg is an empty sequence'') | x # ys \<Rightarrow> Inr (last xs)),
       py_str = (\<lambda>v. case v of JStr t \<Rightarrow> t | _ \<Rightarrow> ''?'') \<rparr>"

definition api_data :: string where
  "api_data = ''https://api.github.com/repos/apiary/hives/contents/beehive_data.json''"

definition api_config :: string where
  "api_config = ''https://api.github.com/repos/apiary/hives/contents/hives_config.json''"

definition raw_data :: string where
  "raw_data = ''https://raw.githubusercontent.com/apiary/hives/main/beehive_data.json''"

definition raw_config :: string where
  "raw_config = ''https://raw.githubusercontent.com/apiary/hives/main/hives_config.json''"

text \<open>The host serves both files; the hashes of the two files are the parameters.\<close>

definition serving :: "string \<Rightarrow> string \<Rightarrow> json env" where
  "serving h_data h_config =
     world [(api_data, Response 200 (sha_text h_data)),
            (api_config, Response 200 (sha_text h_config)),
            (raw_data, Response 200 readings_text),
            (raw_config, Response 200 hives_text)]"

text \<open>The host serves readings whose rows carry a list.\<close>

definition serving_tagged :: "json env" where
  "serving_tagged =
     world [(api_data, Response 200 (sha_text ''a1'')),
            (api_config, Response 200 (sha_text ''b1'')),
            (raw_data, Response 200 tagged_text),
            (raw_config, Response 200 hives_text)]"

text \<open>The host cannot be reached.\<close>

definition unreachable :: "json env" where
  "unreachable =
     world [(api_data, RequestFailed ''Connection refused''),
            (api_config, RequestFailed ''Connection refused''),
            (raw_data, RequestFailed ''Connection refused''),
            (raw_config, RequestFailed ''Connection refused'')]"

text \<open>
  A loader whose cache is filled and whose last seen hashes are \<^verbatim>\<open>a1\<close> and \<^verbatim>\<open>b1\<close>: one load
  and one check, both while the host serves the files.
\<close>

definition warm_loader :: "json state" where
  "warm_loader =
     snd (check_for_updates (serving ''a1'' ''b1'')
            (snd (load_data_with_cache (serving ''a1'' ''b1'') example_loader)))"

text \<open>The data file has a new hash, and fetching its content is answered 503.\<close>

definition changed_but_failing :: "json env" where
  "changed_but_failing =
     world [(api_data, Response 200 (sha_text ''a2'')),
            (api_config, Response 200 (sha_text ''b1'')),
            (raw_data, Response 503 ''Service Unavailable''),
            (raw_config, Response 200 hives_text)]"

text \<open>
  A first load of the readings whose rows carry a list, and the caller emptying that
  list in place through the DataFrame it was handed (the list is the object at address 0).
\<close>

definition tagged_loaded :: "json state" where
  "tagged_loaded = snd (load_data_with_cache serving_tagged example_loader)"

definition empty_list :: "json \<Rightarrow> json" where
  "empty_list v = JArr []"

definition tagged_touched :: "json state" where
  "tagged_touched = mutate_object 0 empty_list tagged_loaded"

subsection \<open>Auxiliary functions for the proofs\<close>

text \<open>
  The values the \<^verbatim>\<open>try\<close> block of \<^verbatim>\<open>load_data_with_cache\<close> holds when it reaches the two
  assignments to the cache (or the first error before them), the URLs it has requested
  by then, and what the method does once the block is left.
\<close>

definition fetched :: "'df env \<Rightarrow> 'df state \<Rightarrow> error + ('df \<times> json list) \<times> json" where
  "fetched w s =
     (case fst (load_json_from_github w s data_file) of
        Inl e \<Rightarrow> Inl e
      | Inr data \<Rightarrow>
          (case fst (load_json_from_github w s config_file) of
             Inl e \<Rightarrow> Inl e
           | Inr hives_config \<Rightarrow>
               (case pd_DataFrame w data of
                  Inl e \<Rightarrow> Inl e
                | Inr df0 \<Rightarrow>
                    (case pd_to_datetime w df0 of
                       Inl e \<Rightarrow> Inl e
                     | Inr df \<Rightarrow> Inr (df, hives_config)))))"

definition reload_log :: "'df env \<Rightarrow> 'df state \<Rightarrow> string list" where
  "reload_log w s =
     (if isl (fst (load_json_from_github w s data_file)) then [raw_url s data_file]
      else [raw_url s data_file, raw_url s config_file])"

definition after_reload ::
  "(error + unit) \<times> 'df state \<Rightarrow> (error + addr \<times> addr option) \<times> 'df state" where
  "after_reload p =
     (case p of
        (Inr u, s1) \<Rightarrow> return_cached s1
      | (Inl e, s1) \<Rightarrow>
          (if data_cache s1 \<noteq> None \<and> config_cache s1 \<noteq> None then return_cached s1
           else (Inl e, s1)))"

text \<open>
  The state in which \<^verbatim>\<open>refresh_data\<close> reaches \<^verbatim>\<open>load_data_with_cache\<close>: both cache fields
  cleared, monitoring started if it was not.
\<close>

definition cleared :: "'df state \<Rightarrow> 'df state" where
  "cleared s = start_monitoring (s\<lparr>data_cache := None, config_cache := None\<rparr>)"

text \<open>
  After a load that returned: the cache refers to a DataFrame, the returned one is the
  newest object and has the value of the cached one, and either the baseline is what
  this world shows or the cached value is what this world serves.
\<close>

definition served_or_recorded :: "'df env \<Rightarrow> 'df state \<Rightarrow> addr \<Rightarrow> bool" where
  "served_or_recorded w s a =
     ((last_data_hash s = fst (get_file_hash_from_github w s data_file) \<and>
       last_config_hash s = fst (get_file_hash_from_github w s config_file)) \<or>
      (\<exists>cfg. fetched w s = Inr ((frames s ! a, held_values s a), cfg) \<and> cfg \<noteq> JNull))"

section \<open>Properties\<close>

subsection \<open>What each function does to the state\<close>

lemma get_file_hash_state:
  "snd (get_file_hash_from_github w s f) = s\<lparr>net_log := net_log s @ [contents_url s f]\<rparr>"
  by (simp add: get_file_hash_from_github_def Let_def split: response.splits sum.splits)

lemma fetch_raw_state:
  "snd (fetch_file_from_github_raw w s f) = s\<lparr>net_log := net_log s @ [raw_url s f]\<rparr>"
  by (simp add: fetch_file_from_github_raw_def Let_def split: response.splits)

lemma load_json_state:
  "snd (load_json_from_github w s f) = s\<lparr>net_log := net_log s @ [raw_url s f]\<rparr>"
  using fetch_raw_state [of w s f]
  by (auto simp: load_json_from_github_def split: prod.splits sum.splits)

lemma load_json_pair:
  "load_json_from_github w s f =
     (fst (load_json_from_github w s f), s\<lparr>net_log := net_log s @ [raw_url s f]\<rparr>)"
  using load_json_state [of w s f] by (metis prod.collapse)

text \<open>What is fetched depends on the loader only through the repository it names.\<close>

lemma get_file_hash_cong:
  "base_url s' = base_url s \<Longrightarrow> headers s' = headers s \<Longrightarrow>
   fst (get_file_hash_from_github w s' f) = fst (get_file_hash_from_github w s f)"
  by (simp add: get_file_hash_from_github_def contents_url_def Let_def
      split: response.splits sum.splits)

lemma load_json_cong:
  "repo_owner s' = repo_owner s \<Longrightarrow> repo_name s' = repo_name s \<Longrightarrow>
   fst (load_json_from_github w s' f) = fst (load_json_from_github w s f)"
  by (simp add: load_json_from_github_def fetch_file_from_github_raw_def raw_url_def Let_def
      split: response.splits sum.splits prod.splits)

lemma fetched_cong:
  "repo_owner s' = repo_owner s \<Longrightarrow> repo_name s' = repo_name s \<Longrightarrow> fetched w s' = fetched w s"
  using load_json_cong [of s' s w data_file] load_json_cong [of s' s w config_file]
  by (simp add: fetched_def split: sum.splits)

lemma reload_log_cong:
  "repo_owner s' = repo_owner s \<Longrightarrow> repo_name s' = repo_name s \<Longrightarrow>
   reload_log w s' = reload_log w s"
  using load_json_cong [of s' s w data_file]
  by (simp add: reload_log_def raw_url_def)

lemma fetch_fails_cong:
  "repo_owner s' = repo_owner s \<Longrightarrow> repo_name s' = repo_name s \<Longrightarrow>
   fetch_fails w s' = fetch_fails w s"
  using load_json_cong [of s' s w data_file] load_json_cong [of s' s w config_file]
  by (simp add: fetch_fails_def)

lemma fetch_fails_fetched: "fetch_fails w s \<Longrightarrow> isl (fetched w s)"
  by (auto simp: fetch_fails_def fetched_def isl_def split: sum.splits)

text \<open>The check in closed form: its answer, the two requests, the new baseline.\<close>

lemma check_for_updates_eq:
  "check_for_updates w s =
     (let d = fst (get_file_hash_from_github w s data_file);
          c = fst (get_file_hash_from_github w s config_file)
      in ((d \<noteq> last_data_hash s \<and> last_data_hash s \<noteq> None) \<or>
          (c \<noteq> last_config_hash s \<and> last_config_hash s \<noteq> None),
          s\<lparr>net_log := net_log s @ [contents_url s data_file, contents_url s config_file],
            last_data_hash := d, last_config_hash := c\<rparr>))"
proof -
  obtain d s1 where a: "get_file_hash_from_github w s data_file = (d, s1)" by fastforce
  have s1: "s1 = s\<lparr>net_log := net_log s @ [contents_url s data_file]\<rparr>"
    using get_file_hash_state [of w s data_file] a by simp
  obtain c s2 where b: "get_file_hash_from_github w s1 config_file = (c, s2)" by fastforce
  have s2: "s2 = s1\<lparr>net_log := net_log s1 @ [contents_url s1 config_file]\<rparr>"
    using get_file_hash_state [of w s1 config_file] b by simp
  have c: "c = fst (get_file_hash_from_github w s config_file)"
    using get_file_hash_cong [of s1 s w config_file] b s1 by simp
  show ?thesis
    using a b c by (simp add: check_for_updates_def Let_def s1 s2 contents_url_def)
qed

lemma check_fields [simp]:
  "repo_owner (snd (check_for_updates w s)) = repo_owner s"
  "repo_name (snd (check_for_updates w s)) = repo_name s"
  "data_cache (snd (check_for_updates w s)) = data_cache s"
  "config_cache (snd (check_for_updates w s)) = config_cache s"
  "frames (snd (check_for_updates w s)) = frames s"
  "objects (snd (check_for_updates w s)) = objects s"
  "frame_refs (snd (check_for_updates w s)) = frame_refs s"
  "monitoring (snd (check_for_updates w s)) = monitoring s"
  "threads (snd (check_for_updates w s)) = threads s"
  "base_url (snd (check_for_updates w s)) = base_url s"
  "headers (snd (check_for_updates w s)) = headers s"
  "last_data_hash (snd (check_for_updates w s)) = fst (get_file_hash_from_github w s data_file)"
  "last_config_hash (snd (check_for_updates w s)) = fst (get_file_hash_from_github w s config_file)"
  by (simp_all add: check_for_updates_eq Let_def)

text \<open>A baseline that was never recorded reports nothing, whatever is observed.\<close>

lemma check_for_updates_no_baseline:
  "last_data_hash s = None \<Longrightarrow> last_config_hash s = None \<Longrightarrow> \<not> fst (check_for_updates w s)"
  by (simp add: check_for_updates_eq Let_def)

text \<open>The \<^verbatim>\<open>try\<close> block in closed form.\<close>

lemma reload_eq:
  "reload w s =
     (let s1 = s\<lparr>net_log := net_log s @ reload_log w s\<rparr>
      in case fetched w s of
           Inl e \<Rightarrow> (Inl e, s1)
         | Inr (df, cfg) \<Rightarrow>
             (case py_len cfg of Inl e \<Rightarrow> Inl e | Inr n \<Rightarrow> Inr (),
              set_config_cache cfg (set_data_cache df s1)))"
proof -
  let ?s1 = "s\<lparr>net_log := net_log s @ [raw_url s data_file]\<rparr>"
  have c: "fst (load_json_from_github w ?s1 config_file) =
           fst (load_json_from_github w s config_file)"
    by (rule load_json_cong) simp_all
  have p1: "load_json_from_github w s data_file =
            (fst (load_json_from_github w s data_file), ?s1)"
    by (rule load_json_pair)
  have p2: "load_json_from_github w ?s1 config_file =
      (fst (load_json_from_github w s config_file),
       s\<lparr>net_log := net_log s @ [raw_url s data_file, raw_url s config_file]\<rparr>)"
    using load_json_pair [of w ?s1 config_file] c by (simp add: raw_url_def)
  show ?thesis
    unfolding reload_def
    apply (subst p1)
    apply (simp only: prod.case)
    apply (cases "fst (load_json_from_github w s data_file)")
     apply (simp add: fetched_def reload_log_def)
    apply (simp only: sum.case)
    apply (subst p2)
    apply (simp only: prod.case)
    apply (cases "fst (load_json_from_github w s config_file)")
     apply (simp add: fetched_def reload_log_def)
    apply (simp add: fetched_def reload_log_def Let_def split: sum.splits)
    done
qed

lemma reload_failed:
  "isl (fetched w s) \<Longrightarrow>
   reload w s = (Inl (projl (fetched w s)), s\<lparr>net_log := net_log s @ reload_log w s\<rparr>)"
  by (cases "fetched w s") (simp_all add: reload_eq Let_def)

lemma load_unfold:
  "load_data_with_cache w s =
     (if data_cache s = None \<or> config_cache s = None then after_reload (reload w s)
      else if fst (check_for_updates w s)
        then after_reload (reload w (snd (check_for_updates w s)))
      else return_cached (snd (check_for_updates w s)))"
  by (simp add: load_data_with_cache_def after_reload_def case_prod_beta)

lemma load_empty_fails:
  assumes "data_cache s = None \<or> config_cache s = None" and "isl (fetched w s)"
  shows "load_data_with_cache w s =
           (Inl (projl (fetched w s)), s\<lparr>net_log := net_log s @ reload_log w s\<rparr>)"
  using assms by (auto simp: load_unfold after_reload_def reload_failed)

lemma load_reload_fails:
  assumes "data_cache s = Some a" and "config_cache s = Some c"
    and "fst (check_for_updates w s)" and "isl (fetched w s)"
  shows "load_data_with_cache w s =
           (Inr (length (frames s), Some c),
            (snd (check_for_updates w s))
              \<lparr>net_log := net_log (snd (check_for_updates w s)) @ reload_log w s,
                frames := frames s @ [frames s ! a],
                frame_refs := frame_refs s @ [frame_refs s ! a]\<rparr>)"
proof -
  let ?s0 = "snd (check_for_updates w s)"
  have f: "fetched w ?s0 = fetched w s" by (rule fetched_cong) simp_all
  have l: "reload_log w ?s0 = reload_log w s" by (rule reload_log_cong) simp_all
  have r: "reload w ?s0 =
           (Inl (projl (fetched w s)), ?s0\<lparr>net_log := net_log ?s0 @ reload_log w s\<rparr>)"
    using reload_failed [of w ?s0] assms(4) f l by simp
  show ?thesis
    using assms(1-3) r
    by (simp add: load_unfold after_reload_def return_cached_def)
qed

subsection \<open>Change detection\<close>

text \<open>
  C1 (the code at the input where the claim fails). The claim: a hash that is \<^verbatim>\<open>None\<close> on
  either side never makes \<^verbatim>\<open>check_for_updates\<close> return true. The loader has recorded the
  hashes \<^verbatim>\<open>a1\<close> and \<^verbatim>\<open>b1\<close>; then the host cannot be reached, so both lookups give \<^verbatim>\<open>None\<close>.
  The check answers true, and it records \<^verbatim>\<open>None\<close> as the baseline, so that the next
  check, which observes the new hash \<^verbatim>\<open>a2\<close>, answers false.
\<close>

theorem check_for_updates_lookup_failure_reports_change:
  "last_data_hash warm_loader = Some (JStr ''a1'') \<and>
   last_config_hash warm_loader = Some (JStr ''b1'') \<and>
   fst (get_file_hash_from_github unreachable warm_loader data_file) = None \<and>
   fst (get_file_hash_from_github unreachable warm_loader config_file) = None \<and>
   fst (check_for_updates unreachable warm_loader) = True \<and>
   last_data_hash (snd (check_for_updates unreachable warm_loader)) = None \<and>
   fst (check_for_updates (serving ''a2'' ''b1'')
          (snd (check_for_updates unreachable warm_loader))) = False"
  by code_simp

text \<open>
  C2. Every call of \<^verbatim>\<open>check_for_updates\<close> stores the two hashes it has just observed as
  the last seen ones, whatever it answers. In the scenario of the specification the
  first check records \<^verbatim>\<open>a1\<close> and \<^verbatim>\<open>b1\<close>, the second observes the same and answers false,
  the third observes \<^verbatim>\<open>a2\<close> and \<^verbatim>\<open>b1\<close>, answers true and leaves \<^verbatim>\<open>a2\<close> and \<^verbatim>\<open>b1\<close> recorded.
\<close>

theorem check_for_updates_records_observed:
  "last_data_hash (snd (check_for_updates w s)) =
     fst (get_file_hash_from_github w s data_file) \<and>
   last_config_hash (snd (check_for_updates w s)) =
     fst (get_file_hash_from_github w s config_file) \<and>
   (let s1 = snd (check_for_updates (serving ''a1'' ''b1'') example_loader);
        s2 = snd (check_for_updates (serving ''a1'' ''b1'') s1);
        s3 = snd (check_for_updates (serving ''a2'' ''b1'') s2)
    in last_data_hash s1 = Some (JStr ''a1'') \<and> last_config_hash s1 = Some (JStr ''b1'') \<and>
       fst (check_for_updates (serving ''a1'' ''b1'') s1) = False \<and>
       last_data_hash s2 = Some (JStr ''a1'') \<and> last_config_hash s2 = Some (JStr ''b1'') \<and>
       fst (check_for_updates (serving ''a2'' ''b1'') s2) = True \<and>
       last_data_hash s3 = Some (JStr ''a2'') \<and> last_config_hash s3 = Some (JStr ''b1''))"
proof -
  have scenario:
    "(let s1 = snd (check_for_updates (serving ''a1'' ''b1'') example_loader);
          s2 = snd (check_for_updates (serving ''a1'' ''b1'') s1);
          s3 = snd (check_for_updates (serving ''a2'' ''b1'') s2)
      in last_data_hash s1 = Some (JStr ''a1'') \<and> last_config_hash s1 = Some (JStr ''b1'') \<and>
         fst (check_for_updates (serving ''a1'' ''b1'') s1) = False \<and>
         last_data_hash s2 = Some (JStr ''a1'') \<and> last_config_hash s2 = Some (JStr ''b1'') \<and>
         fst (check_for_updates (serving ''a2'' ''b1'') s2) = True \<and>
         last_data_hash s3 = Some (JStr ''a2'') \<and> last_config_hash s3 = Some (JStr ''b1''))"
    by code_simp
  have data: "last_data_hash (snd (check_for_updates w s)) =
                fst (get_file_hash_from_github w s data_file)"
    by simp
  have config: "last_config_hash (snd (check_for_updates w s)) =
                  fst (get_file_hash_from_github w s config_file)"
    by simp
  show ?thesis
    by (rule conjI [OF data conjI [OF config scenario]])
qed

subsection \<open>Loading through the cache\<close>

text \<open>
  C3. The cache holds a DataFrame and a config, the check reports a change, and the
  fetch or the parse of one of the two files fails. Then \<^verbatim>\<open>load_data_with_cache\<close> returns
  normally: a new DataFrame object whose value is that of the cached one, and the
  cached config. Both cache fields still refer to the objects they referred to, and no
  object that existed before the call has changed.
\<close>

theorem load_failed_reload_serves_cache:
  assumes "data_cache s = Some a" and "config_cache s = Some c"
    and "fst (check_for_updates w s)" and "fetch_fails w s"
  shows "fst (load_data_with_cache w s) = Inr (length (frames s), Some c) \<and>
         frames (snd (load_data_with_cache w s)) = frames s @ [frames s ! a] \<and>
         frames (snd (load_data_with_cache w s)) ! length (frames s) = frames s ! a \<and>
         frame_refs (snd (load_data_with_cache w s)) = frame_refs s @ [frame_refs s ! a] \<and>
         objects (snd (load_data_with_cache w s)) = objects s \<and>
         data_cache (snd (load_data_with_cache w s)) = Some a \<and>
         config_cache (snd (load_data_with_cache w s)) = Some c"
  using load_reload_fails [OF assms(1-3) fetch_fails_fetched [OF assms(4)]] assms(1,2)
  by simp

theorem load_failed_reload_serves_cache_witness:
  "data_cache warm_loader = Some 0 \<and> config_cache warm_loader = Some 0 \<and>
   fst (check_for_updates changed_but_failing warm_loader) \<and>
   fetch_fails changed_but_failing warm_loader \<and>
   fst (load_data_with_cache changed_but_failing warm_loader) = Inr (2, Some 0) \<and>
   frames (snd (load_data_with_cache changed_but_failing warm_loader)) ! 2 = readings_json \<and>
   frames warm_loader ! 0 = readings_json \<and>
   data_cache (snd (load_data_with_cache changed_but_failing warm_loader)) = Some 0 \<and>
   config_cache (snd (load_data_with_cache changed_but_failing warm_loader)) = Some 0"
proof -
  have h1: "data_cache warm_loader = Some 0" by code_simp
  have h2: "config_cache warm_loader = Some 0" by code_simp
  have h3: "fst (check_for_updates changed_but_failing warm_loader)" by code_simp
  have h4: "fetch_fails changed_but_failing warm_loader" by code_simp
  have h5: "frames warm_loader = [readings_json, readings_json]" by code_simp
  show ?thesis
    using load_failed_reload_serves_cache [OF h1 h2 h3 h4] h1 h2 h3 h4 h5 by simp
qed

text \<open>
  C4. The cache lacks the DataFrame or the config, and the fetch or the parse of one of
  the two files fails. Then \<^verbatim>\<open>load_data_with_cache\<close> raises, and both cache fields and
  the store are as they were: the cache is still empty.
\<close>

theorem load_empty_cache_failure_raises:
  assumes "data_cache s = None \<or> config_cache s = None" and "fetch_fails w s"
  shows "isl (fst (load_data_with_cache w s)) \<and>
         data_cache (snd (load_data_with_cache w s)) = data_cache s \<and>
         config_cache (snd (load_data_with_cache w s)) = config_cache s \<and>
         (data_cache (snd (load_data_with_cache w s)) = None \<or>
          config_cache (snd (load_data_with_cache w s)) = None) \<and>
         frames (snd (load_data_with_cache w s)) = frames s \<and>
         frame_refs (snd (load_data_with_cache w s)) = frame_refs s \<and>
         objects (snd (load_data_with_cache w s)) = objects s"
  using load_empty_fails [OF assms(1) fetch_fails_fetched [OF assms(2)]] assms(1)
  by auto

theorem load_empty_cache_failure_raises_witness:
  "data_cache example_loader = None \<and> config_cache example_loader = None \<and>
   fetch_fails unreachable example_loader \<and>
   isl (fst (load_data_with_cache unreachable example_loader)) \<and>
   data_cache (snd (load_data_with_cache unreachable example_loader)) = None \<and>
   config_cache (snd (load_data_with_cache unreachable example_loader)) = None"
proof -
  have h1: "data_cache example_loader = None" by code_simp
  have h2: "config_cache example_loader = None" by code_simp
  have h3: "fetch_fails unreachable example_loader" by code_simp
  show ?thesis
    using load_empty_cache_failure_raises [OF disjI1 [OF h1] h3] h1 h2 h3 by simp
qed

subsection \<open>Reloading into an empty cache, and refreshing\<close>

lemma set_cache_fields [simp]:
  "data_cache (set_data_cache df s) = Some (length (frames s))"
  "frames (set_data_cache df s) = frames s @ [fst df]"
  "frame_refs (set_data_cache df s) =
     frame_refs s @ [[length (objects s) ..< length (objects s) + length (snd df)]]"
  "config_cache (set_data_cache df s) = config_cache s"
  "objects (set_data_cache df s) = objects s @ snd df"
  "net_log (set_data_cache df s) = net_log s"
  "last_data_hash (set_data_cache df s) = last_data_hash s"
  "last_config_hash (set_data_cache df s) = last_config_hash s"
  "repo_owner (set_data_cache df s) = repo_owner s"
  "repo_name (set_data_cache df s) = repo_name s"
  "base_url (set_data_cache df s) = base_url s"
  "headers (set_data_cache df s) = headers s"
  "data_cache (set_config_cache v s) = data_cache s"
  "frames (set_config_cache v s) = frames s"
  "frame_refs (set_config_cache v s) = frame_refs s"
  "net_log (set_config_cache v s) = net_log s"
  "last_data_hash (set_config_cache v s) = last_data_hash s"
  "last_config_hash (set_config_cache v s) = last_config_hash s"
  "repo_owner (set_config_cache v s) = repo_owner s"
  "repo_name (set_config_cache v s) = repo_name s"
  "base_url (set_config_cache v s) = base_url s"
  "headers (set_config_cache v s) = headers s"
  by (simp_all add: set_data_cache_def set_config_cache_def split: option.splits)

lemma set_config_cache_null [simp]:
  "config_cache (set_config_cache JNull s) = None"
  "objects (set_config_cache JNull s) = objects s"
  by (simp_all add: set_config_cache_def)

lemma set_config_cache_object:
  "v \<noteq> JNull \<Longrightarrow> config_cache (set_config_cache v s) = Some (length (objects s))"
  "v \<noteq> JNull \<Longrightarrow> objects (set_config_cache v s) = objects s @ [v]"
  by (cases v; simp add: set_config_cache_def)+

lemma py_len_null: "py_len JNull = Inl (TypeError ''object has no len()'')"
  by simp

text \<open>Returning from a cache that holds a DataFrame.\<close>

lemma return_cached_some:
  "data_cache s = Some a \<Longrightarrow>
   return_cached s =
     (Inr (length (frames s), config_cache s),
      s\<lparr>frames := frames s @ [frames s ! a],
        frame_refs := frame_refs s @ [frame_refs s ! a]\<rparr>)"
  by (simp add: return_cached_def)

text \<open>
  The state a reload leaves when both files were fetched and the config is an object:
  the new frame and the objects it refers to, then the config.
\<close>

lemma reloaded_fields:
  assumes "cfg \<noteq> JNull"
  shows "data_cache (set_config_cache cfg (set_data_cache df s)) = Some (length (frames s))"
    and "config_cache (set_config_cache cfg (set_data_cache df s)) =
           Some (length (objects s) + length (snd df))"
    and "frames (set_config_cache cfg (set_data_cache df s)) = frames s @ [fst df]"
    and "objects (set_config_cache cfg (set_data_cache df s)) = objects s @ snd df @ [cfg]"
  using assms by (simp_all add: set_config_cache_object)

text \<open>The three ways the block can end, on a loader whose cache is empty.\<close>

lemma load_empty_null_config:
  assumes "data_cache s = None \<or> config_cache s = None" and "fetched w s = Inr (df, JNull)"
  shows "load_data_with_cache w s =
           (Inl (TypeError ''object has no len()''),
            set_config_cache JNull (set_data_cache df (s\<lparr>net_log := net_log s @ reload_log w s\<rparr>)))"
  using assms by (auto simp: load_unfold after_reload_def reload_eq Let_def)

lemma after_reload_fresh:
  assumes "fetched w s = Inr (df, cfg)" and "cfg \<noteq> JNull"
  shows "after_reload (reload w s) =
           return_cached
             (set_config_cache cfg (set_data_cache df (s\<lparr>net_log := net_log s @ reload_log w s\<rparr>)))"
  using assms
  by (cases "py_len cfg")
     (simp_all add: after_reload_def reload_eq Let_def set_config_cache_object)

lemma load_empty_fresh:
  assumes "data_cache s = None \<or> config_cache s = None"
    and "fetched w s = Inr (df, cfg)" and "cfg \<noteq> JNull"
  shows "load_data_with_cache w s =
           return_cached
             (set_config_cache cfg (set_data_cache df (s\<lparr>net_log := net_log s @ reload_log w s\<rparr>)))"
  using assms(1) after_reload_fresh [OF assms(2,3)] by (auto simp: load_unfold)

lemma cleared_fields [simp]:
  "data_cache (cleared s) = None"
  "config_cache (cleared s) = None"
  "frames (cleared s) = frames s"
  "frame_refs (cleared s) = frame_refs s"
  "objects (cleared s) = objects s"
  "net_log (cleared s) = net_log s"
  "last_data_hash (cleared s) = last_data_hash s"
  "last_config_hash (cleared s) = last_config_hash s"
  "repo_owner (cleared s) = repo_owner s"
  "repo_name (cleared s) = repo_name s"
  "monitoring (cleared s) = True"
  by (simp_all add: cleared_def start_monitoring_def)

lemma refresh_unfold:
  "refresh_data w s =
     (case load_data_with_cache w (cleared s) of
        (Inl e, s2) \<Rightarrow> (Inl (rewrap e), s2)
      | (Inr r, s2) \<Rightarrow> (Inr r, s2))"
  by (simp add: refresh_data_def load_beehive_data_from_json_def cleared_def start_monitoring_def)

lemma cleared_fetched [simp]: "fetched w (cleared s) = fetched w s"
  by (rule fetched_cong) simp_all

lemma cleared_reload_log [simp]: "reload_log w (cleared s) = reload_log w s"
  by (rule reload_log_cong) simp_all

lemma refresh_failed:
  assumes "isl (fetched w s)"
  shows "refresh_data w s =
           (Inl (rewrap (projl (fetched w s))),
            (cleared s)\<lparr>net_log := net_log s @ reload_log w s\<rparr>)"
  using load_empty_fails [of "cleared s" w] assms by (simp add: refresh_unfold)





lemma held_in_appended:
  "map (\<lambda>r. (xs @ ys @ zs) ! r) [length xs ..< length xs + length ys] = ys"
proof (rule nth_equalityI)
  show "length (map (\<lambda>r. (xs @ ys @ zs) ! r) [length xs ..< length xs + length ys]) = length ys"
    by simp
next
  fix i
  assume "i < length (map (\<lambda>r. (xs @ ys @ zs) ! r) [length xs ..< length xs + length ys])"
  then have i: "i < length ys" by simp
  then show "map (\<lambda>r. (xs @ ys @ zs) ! r) [length xs ..< length xs + length ys] ! i = ys ! i"
    by (simp add: nth_append)
qed





text \<open>
  C10. When the fetch or the parse of one of the two files fails, \<^verbatim>\<open>refresh_data\<close> raises
  the (rewrapped) error and both cache fields are \<^verbatim>\<open>None\<close> afterwards: the objects that
  were cached are still in the store but the loader no longer refers to them. The next
  \<^verbatim>\<open>load_data_with_cache\<close> goes straight into the \<^verbatim>\<open>try\<close> block, as a first load does,
  and raises if the fetch fails again.
\<close>

theorem refresh_data_failure_empties_cache:
  assumes "fetch_fails w s"
  shows "fst (refresh_data w s) = Inl (rewrap (projl (fetched w s))) \<and>
         data_cache (snd (refresh_data w s)) = None \<and>
         config_cache (snd (refresh_data w s)) = None \<and>
         frames (snd (refresh_data w s)) = frames s \<and>
         frame_refs (snd (refresh_data w s)) = frame_refs s \<and>
         objects (snd (refresh_data w s)) = objects s \<and>
         (\<forall>w2. load_data_with_cache w2 (snd (refresh_data w s)) =
                 after_reload (reload w2 (snd (refresh_data w s)))) \<and>
         (\<forall>w2. fetch_fails w2 s \<longrightarrow>
                 isl (fst (load_data_with_cache w2 (snd (refresh_data w s)))))"
proof -
  let ?s' = "(cleared s)\<lparr>net_log := net_log s @ reload_log w s\<rparr>"
  have r: "refresh_data w s = (Inl (rewrap (projl (fetched w s))), ?s')"
    using refresh_failed [OF fetch_fails_fetched [OF assms]] .
  have e: "data_cache ?s' = None \<or> config_cache ?s' = None" by simp
  have "isl (fst (load_data_with_cache w2 ?s'))" if "fetch_fails w2 s" for w2
  proof -
    have "fetch_fails w2 ?s'" using that fetch_fails_cong [of ?s' s w2] by simp
    then have "isl (fetched w2 ?s')" by (rule fetch_fails_fetched)
    then show ?thesis using load_empty_fails [OF e] by simp
  qed
  then show ?thesis using r by (simp add: load_unfold)
qed

theorem refresh_data_failure_empties_cache_witness:
  "data_cache warm_loader = Some 0 \<and> config_cache warm_loader = Some 0 \<and>
   fetch_fails unreachable warm_loader \<and>
   isl (fst (refresh_data unreachable warm_loader)) \<and>
   data_cache (snd (refresh_data unreachable warm_loader)) = None \<and>
   config_cache (snd (refresh_data unreachable warm_loader)) = None \<and>
   isl (fst (load_data_with_cache unreachable (snd (refresh_data unreachable warm_loader))))"
proof -
  have h1: "data_cache warm_loader = Some 0 \<and> config_cache warm_loader = Some 0" by code_simp
  have h2: "fetch_fails unreachable warm_loader" by code_simp
  note t = refresh_data_failure_empties_cache [OF h2]
  from t h2 have h3: "isl (fst (load_data_with_cache unreachable
                                  (snd (refresh_data unreachable warm_loader))))"
    by blast
  from t have h4: "isl (fst (refresh_data unreachable warm_loader))" by simp
  from t have h5: "data_cache (snd (refresh_data unreachable warm_loader)) = None \<and>
                   config_cache (snd (refresh_data unreachable warm_loader)) = None"
    by simp
  show ?thesis
    using h1 h2 h3 h4 h5 by blast
qed

subsection \<open>Reading the metadata\<close>

lemma get_data_info_state:
  "snd (get_data_info w s) = s\<lparr>net_log := net_log s @ reload_log w s\<rparr>"
proof -
  let ?s1 = "s\<lparr>net_log := net_log s @ [raw_url s data_file]\<rparr>"
  have p1: "load_json_from_github w s data_file =
            (fst (load_json_from_github w s data_file), ?s1)"
    by (rule load_json_pair)
  have p2: "load_json_from_github w ?s1 config_file =
      (fst (load_json_from_github w ?s1 config_file),
       s\<lparr>net_log := net_log s @ [raw_url s data_file, raw_url s config_file]\<rparr>)"
    using load_json_pair [of w ?s1 config_file] by (simp add: raw_url_def)
  show ?thesis
    unfolding get_data_info_def Let_def
    apply (subst p1)
    apply (simp only: prod.case)
    apply (cases "fst (load_json_from_github w s data_file)")
     apply (simp add: reload_log_def)
    apply (simp only: sum.case)
    apply (subst p2)
    apply (simp only: prod.case)
    apply (simp add: reload_log_def split: sum.splits)
    done
qed

text \<open>
  C7. \<^verbatim>\<open>get_data_info\<close> leaves the cached DataFrame, the cached config, the last seen
  hashes and every stored object as they were, for every world, so whether it returns
  the metadata or the error message. The state after the call differs from the state
  before it in the list of requested URLs only.
\<close>

theorem get_data_info_keeps_cache:
  "data_cache (snd (get_data_info w s)) = data_cache s \<and>
   config_cache (snd (get_data_info w s)) = config_cache s \<and>
   last_data_hash (snd (get_data_info w s)) = last_data_hash s \<and>
   last_config_hash (snd (get_data_info w s)) = last_config_hash s \<and>
   frames (snd (get_data_info w s)) = frames s \<and>
   frame_refs (snd (get_data_info w s)) = frame_refs s \<and>
   objects (snd (get_data_info w s)) = objects s \<and>
   snd (get_data_info w s) = s\<lparr>net_log := net_log (snd (get_data_info w s))\<rparr>"
  by (simp add: get_data_info_state)

subsection \<open>Monitoring\<close>

lemma start_monitoring_when_active: "monitoring s \<Longrightarrow> start_monitoring s = s"
  by (simp add: start_monitoring_def)

lemma start_monitoring_twice: "start_monitoring (start_monitoring s) = start_monitoring s"
  by (simp add: start_monitoring_def)

lemma stop_monitoring_twice: "stop_monitoring (stop_monitoring s) = stop_monitoring s"
  by (simp add: stop_monitoring_def)

lemma stop_monitoring_flag_only: "stop_monitoring s = s\<lparr>monitoring := False\<rparr>"
  by (simp add: stop_monitoring_def)

text \<open>
  As long as the flag is set exactly when one thread is alive, starting and polling keep
  it so. \<^verbatim>\<open>stop_monitoring\<close> breaks this: the flag is cleared while the thread lives on.
\<close>

lemma start_monitoring_single_loop:
  "threads s = (if monitoring s then 1 else 0) \<Longrightarrow>
   monitoring (start_monitoring s) \<and> threads (start_monitoring s) = 1"
  by (simp add: start_monitoring_def split: if_splits)

lemma monitor_loop_step_single_loop:
  "threads s = (if monitoring s then 1 else 0) \<Longrightarrow>
   threads (monitor_loop_step w s) = (if monitoring (monitor_loop_step w s) then 1 else 0)"
  by (simp add: monitor_loop_step_def split: if_splits)

text \<open>
  C8 (the code at the input where the claim fails). The claim: at most one polling loop
  is active at a time. \<^verbatim>\<open>start_monitoring\<close>, \<^verbatim>\<open>stop_monitoring\<close>, \<^verbatim>\<open>start_monitoring\<close> in
  a row, before the first thread has tested the flag again: the second start finds the
  flag cleared and starts a second thread, then both threads find the flag set at the
  head of their loops and both go on polling.
\<close>

theorem restart_leaves_two_monitor_loops:
  "(let s1 = start_monitoring example_loader;
        s2 = stop_monitoring s1;
        s3 = start_monitoring s2;
        s4 = monitor_loop_step (serving ''a1'' ''b1'') s3;
        s5 = monitor_loop_step (serving ''a1'' ''b1'') s4
    in threads example_loader = 0 \<and> threads s1 = 1 \<and> threads s2 = 1 \<and> \<not> monitoring s2 \<and>
       threads s3 = 2 \<and> monitoring s3 \<and> threads s5 = 2 \<and> monitoring s5)"
  by code_simp

subsection \<open>Copies and aliases\<close>

text \<open>The loader starts with a well-formed store, and every call keeps it so.\<close>

lemma init_refs_valid: "init owner name tok = Inr s \<Longrightarrow> refs_valid s"
  by (auto simp: init_def refs_valid_def split: if_splits)

lemma check_refs_valid: "refs_valid s \<Longrightarrow> refs_valid (snd (check_for_updates w s))"
  by (simp add: refs_valid_def split: option.splits)

lemma return_cached_refs_valid: "refs_valid s \<Longrightarrow> refs_valid (snd (return_cached s))"
  by (auto simp: refs_valid_def return_cached_def split: option.splits)

lemma reload_refs_valid: "refs_valid s \<Longrightarrow> refs_valid (snd (reload w s))"
proof -
  assume rv: "refs_valid s"
  have n: "refs_valid (s\<lparr>net_log := l\<rparr>)" for l
    using rv by (simp add: refs_valid_def split: option.splits)
  have c: "refs_valid (set_config_cache cfg (set_data_cache df (s\<lparr>net_log := l\<rparr>)))" for cfg df l
    by (cases "cfg = JNull")
       (simp_all add: refs_valid_def set_config_cache_object split: option.splits)
  show ?thesis
    by (simp add: reload_eq Let_def n c split: sum.splits prod.splits)
qed

lemma after_reload_refs_valid: "refs_valid (snd p) \<Longrightarrow> refs_valid (snd (after_reload p))"
  by (cases p) (auto simp: after_reload_def return_cached_refs_valid split: sum.splits)

lemma load_refs_valid: "refs_valid s \<Longrightarrow> refs_valid (snd (load_data_with_cache w s))"
  by (simp add: load_unfold after_reload_refs_valid reload_refs_valid check_refs_valid
      return_cached_refs_valid)

lemma heap_ok_iff:
  "heap_ok s =
     (length (frame_refs s) = length (frames s) \<and>
      (\<forall>refs\<in>set (frame_refs s). \<forall>r\<in>set refs. r < length (objects s)))"
  by (auto simp: heap_ok_def list_all_iff)

lemma heap_ok_grow:
  assumes hk: "heap_ok s"
    and len: "length (frame_refs s') = length (frames s')"
    and sub: "set (frame_refs s') \<subseteq> set (frame_refs s) \<union> N"
    and new: "\<forall>refs\<in>N. \<forall>r\<in>set refs. r < length (objects s')"
    and le: "length (objects s) \<le> length (objects s')"
  shows "heap_ok s'"
  unfolding heap_ok_iff
proof (intro conjI ballI)
  show "length (frame_refs s') = length (frames s')" by (rule len)
next
  fix refs r
  assume a: "refs \<in> set (frame_refs s')" and b: "r \<in> set refs"
  from a sub have "refs \<in> set (frame_refs s) \<or> refs \<in> N" by blast
  then show "r < length (objects s')"
  proof
    assume "refs \<in> set (frame_refs s)"
    then have "r < length (objects s)" using hk b by (simp add: heap_ok_iff)
    then show ?thesis using le by simp
  next
    assume "refs \<in> N"
    then show ?thesis using new b by blast
  qed
qed

lemma init_heap_ok: "init owner name tok = Inr s \<Longrightarrow> heap_ok s"
  by (auto simp: init_def heap_ok_def split: if_splits)

lemma check_heap_ok: "heap_ok s \<Longrightarrow> heap_ok (snd (check_for_updates w s))"
  by (simp add: heap_ok_def)

lemma return_cached_heap_ok:
  "heap_ok s \<Longrightarrow> refs_valid s \<Longrightarrow> heap_ok (snd (return_cached s))"
  by (auto simp: heap_ok_iff refs_valid_def return_cached_def split: option.splits)

lemma reloaded_heap_ok:
  "heap_ok s \<Longrightarrow> heap_ok (set_config_cache cfg (set_data_cache df s))"
proof -
  assume hk: "heap_ok s"
  let ?new = "[length (objects s) ..< length (objects s) + length (snd df)]"
  have l: "length (frame_refs s) = length (frames s)" using hk by (simp add: heap_ok_iff)
  show ?thesis
  proof (rule heap_ok_grow [OF hk, where N = "{?new}"])
    show "length (frame_refs (set_config_cache cfg (set_data_cache df s))) =
          length (frames (set_config_cache cfg (set_data_cache df s)))"
      using l by simp
    show "set (frame_refs (set_config_cache cfg (set_data_cache df s))) \<subseteq>
          set (frame_refs s) \<union> {?new}"
      by simp
    show "\<forall>refs\<in>{?new}. \<forall>r\<in>set refs.
            r < length (objects (set_config_cache cfg (set_data_cache df s)))"
      by (cases "cfg = JNull") (simp_all add: set_config_cache_object)
    show "length (objects s) \<le> length (objects (set_config_cache cfg (set_data_cache df s)))"
      by (cases "cfg = JNull") (simp_all add: set_config_cache_object)
  qed
qed

lemma reload_heap_ok: "heap_ok s \<Longrightarrow> heap_ok (snd (reload w s))"
proof -
  assume hk: "heap_ok s"
  have n: "heap_ok (s\<lparr>net_log := l\<rparr>)" for l using hk by (simp add: heap_ok_def)
  show ?thesis
    by (simp add: reload_eq Let_def n reloaded_heap_ok split: sum.splits prod.splits)
qed

lemma load_heap_ok:
  assumes "heap_ok s" and "refs_valid s"
  shows "heap_ok (snd (load_data_with_cache w s))"
proof -
  have a: "heap_ok (snd (after_reload p))" if "heap_ok (snd p)" "refs_valid (snd p)" for p :: "(error + unit) \<times> 'a state"
    using that by (cases p) (auto simp: after_reload_def return_cached_heap_ok split: sum.splits)
  show ?thesis
    using assms
    by (simp add: load_unfold a reload_heap_ok reload_refs_valid check_heap_ok check_refs_valid
        return_cached_heap_ok)
qed

lemma held_values_kept:
  assumes "heap_ok s" and "a < length (frames s)"
    and "frame_refs s' ! a = frame_refs s ! a"
    and "\<forall>r<length (objects s). objects s' ! r = objects s ! r"
  shows "held_values s' a = held_values s a"
proof -
  have "frame_refs s ! a \<in> set (frame_refs s)"
    using assms(1,2) by (simp add: heap_ok_iff)
  then have "\<forall>r\<in>set (frame_refs s ! a). r < length (objects s)"
    using assms(1) by (simp add: heap_ok_iff)
  then show ?thesis
    using assms(3,4) by (simp add: held_values_def)
qed

lemma check_fst_cong:
  "base_url s' = base_url s \<Longrightarrow> headers s' = headers s \<Longrightarrow>
   last_data_hash s' = last_data_hash s \<Longrightarrow> last_config_hash s' = last_config_hash s \<Longrightarrow>
   fst (check_for_updates w s') = fst (check_for_updates w s)"
  using get_file_hash_cong [of s' s w data_file] get_file_hash_cong [of s' s w config_file]
  by (simp add: check_for_updates_eq Let_def)

lemma check_same_as_baseline:
  "last_data_hash s = fst (get_file_hash_from_github w s data_file) \<Longrightarrow>
   last_config_hash s = fst (get_file_hash_from_github w s config_file) \<Longrightarrow>
   \<not> fst (check_for_updates w s)"
  by (simp add: check_for_updates_eq Let_def)

lemma load_no_change:
  assumes "data_cache s = Some a" and "config_cache s = Some c"
    and "\<not> fst (check_for_updates w s)"
  shows "load_data_with_cache w s =
           (Inr (length (frames s), Some c),
            (snd (check_for_updates w s))
              \<lparr>frames := frames s @ [frames s ! a],
                frame_refs := frame_refs s @ [frame_refs s ! a]\<rparr>)"
  using assms by (simp add: load_unfold return_cached_def)

lemma load_reload_fresh:
  assumes "data_cache s = Some a" and "config_cache s = Some c"
    and "fst (check_for_updates w s)" and "fetched w s = Inr (df, cfg)" and "cfg \<noteq> JNull"
  shows "load_data_with_cache w s =
           return_cached
             (set_config_cache cfg
               (set_data_cache df
                  ((snd (check_for_updates w s))
                     \<lparr>net_log := net_log (snd (check_for_updates w s)) @ reload_log w s\<rparr>)))"
proof -
  let ?s0 = "snd (check_for_updates w s)"
  have f: "fetched w ?s0 = Inr (df, cfg)"
    using fetched_cong [of ?s0 s w] assms(4) by simp
  have l: "reload_log w ?s0 = reload_log w s" by (rule reload_log_cong) simp_all
  show ?thesis
    using assms(1-3) after_reload_fresh [OF f assms(5)] l by (simp add: load_unfold)
qed

lemma load_reload_null_config:
  assumes "data_cache s = Some a" and "config_cache s = Some c"
    and "fst (check_for_updates w s)" and "fetched w s = Inr (df, JNull)"
  shows "isl (fst (load_data_with_cache w s))"
proof -
  let ?s0 = "snd (check_for_updates w s)"
  have f: "fetched w ?s0 = Inr (df, JNull)"
    using fetched_cong [of ?s0 s w] assms(4) by simp
  show ?thesis
    using assms(1-3) f by (simp add: load_unfold after_reload_def reload_eq Let_def)
qed

lemma served_or_recorded_cong:
  assumes "base_url s' = base_url s" "headers s' = headers s"
    "repo_owner s' = repo_owner s" "repo_name s' = repo_name s"
    "last_data_hash s' = last_data_hash s" "last_config_hash s' = last_config_hash s"
    "frames s' ! a = frames s ! a" "held_values s' a = held_values s a"
  shows "served_or_recorded w s' a = served_or_recorded w s a"
  using assms get_file_hash_cong [of s' s w data_file] get_file_hash_cong [of s' s w config_file]
    fetched_cong [of s' s w]
  by (simp add: served_or_recorded_def)

text \<open>The state in which a load returns after a reload that got both files.\<close>

lemma fresh_state:
  assumes n: "cfg \<noteq> JNull"
    and r: "(res, s1) = return_cached (set_config_cache cfg (set_data_cache df s'))"
  shows "res = Inr (length (frames s') + 1, Some (length (objects s') + length (snd df)))"
    and "data_cache s1 = Some (length (frames s'))"
    and "config_cache s1 = Some (length (objects s') + length (snd df))"
    and "frames s1 = frames s' @ [fst df, fst df]"
    and "objects s1 = objects s' @ snd df @ [cfg]"
    and "length (frame_refs s') = length (frames s') \<Longrightarrow>
         frame_refs s1 = frame_refs s' @
           [[length (objects s') ..< length (objects s') + length (snd df)],
            [length (objects s') ..< length (objects s') + length (snd df)]]"
    and "base_url s1 = base_url s'" and "headers s1 = headers s'"
    and "repo_owner s1 = repo_owner s'" and "repo_name s1 = repo_name s'"
    and "last_data_hash s1 = last_data_hash s'" and "last_config_hash s1 = last_config_hash s'"
proof -
  let ?s4 = "set_config_cache cfg (set_data_cache df s')"
  have d: "data_cache ?s4 = Some (length (frames s'))" by simp
  have e: "res = fst (return_cached ?s4)" "s1 = snd (return_cached ?s4)"
    using r by (metis fst_conv, metis snd_conv)
  show "res = Inr (length (frames s') + 1, Some (length (objects s') + length (snd df)))"
    and "data_cache s1 = Some (length (frames s'))"
    and "config_cache s1 = Some (length (objects s') + length (snd df))"
    and "frames s1 = frames s' @ [fst df, fst df]"
    and "objects s1 = objects s' @ snd df @ [cfg]"
    and "base_url s1 = base_url s'" and "headers s1 = headers s'"
    and "repo_owner s1 = repo_owner s'" and "repo_name s1 = repo_name s'"
    and "last_data_hash s1 = last_data_hash s'" and "last_config_hash s1 = last_config_hash s'"
    using n by (simp_all add: e return_cached_some [OF d] set_config_cache_object nth_append)
  show "frame_refs s1 = frame_refs s' @
           [[length (objects s') ..< length (objects s') + length (snd df)],
            [length (objects s') ..< length (objects s') + length (snd df)]]"
    if "length (frame_refs s') = length (frames s')"
    using that by (simp add: e return_cached_some [OF d] nth_append)
qed

lemma fresh_state_served:
  assumes n: "cfg \<noteq> JNull"
    and r: "(res, s1) = return_cached (set_config_cache cfg (set_data_cache df s'))"
    and hk: "heap_ok s'"
    and f: "fetched w s1 = Inr (df, cfg)"
  shows "heap_ok s1"
    and "frame_refs s1 ! (length (frames s') + 1) = frame_refs s1 ! length (frames s')"
    and "served_or_recorded w s1 (length (frames s'))"
proof -
  note fs = fresh_state [OF n r]
  have l: "length (frame_refs s') = length (frames s')" using hk by (simp add: heap_ok_def)
  note refs = fs(6) [OF l]
  show "heap_ok s1"
  proof (rule heap_ok_grow [OF hk,
        where N = "{[length (objects s') ..< length (objects s') + length (snd df)]}"])
    show "length (frame_refs s1) = length (frames s1)" using l by (simp add: fs(4) refs)
    show "set (frame_refs s1) \<subseteq> set (frame_refs s') \<union>
            {[length (objects s') ..< length (objects s') + length (snd df)]}"
      by (simp add: refs)
    show "\<forall>refs\<in>{[length (objects s') ..< length (objects s') + length (snd df)]}.
            \<forall>r\<in>set refs. r < length (objects s1)"
      by (simp add: fs(5))
    show "length (objects s') \<le> length (objects s1)" by (simp add: fs(5))
  qed
  show "frame_refs s1 ! (length (frames s') + 1) = frame_refs s1 ! length (frames s')"
    using l by (simp add: refs nth_append)
  have h: "held_values s1 (length (frames s')) = snd df"
    unfolding held_values_def fs(5)
    using l by (simp add: refs nth_append held_in_appended)
  show "served_or_recorded w s1 (length (frames s'))"
    using f n h by (simp add: served_or_recorded_def fs(4) nth_append)
qed

lemma load_success:
  assumes l: "load_data_with_cache w s = (Inr (d, c), s1)" and rv: "refs_valid s"
  shows "\<exists>a k. data_cache s1 = Some a \<and> a < d \<and> Suc d = length (frames s1) \<and>
           frames s1 ! d = frames s1 ! a \<and>
           c = Some k \<and> config_cache s1 = Some k \<and> k < length (objects s1) \<and>
           base_url s1 = base_url s \<and> headers s1 = headers s \<and>
           repo_owner s1 = repo_owner s \<and> repo_name s1 = repo_name s \<and>
           (heap_ok s \<longrightarrow>
              heap_ok s1 \<and> frame_refs s1 ! d = frame_refs s1 ! a \<and> served_or_recorded w s1 a)"
proof -
  have fresh: ?thesis
    if n: "cfg \<noteq> JNull" and f: "fetched w s = Inr (df, cfg)"
      and r: "(Inr (d, c), s1) = return_cached (set_config_cache cfg (set_data_cache df s'))"
      and same: "frames s' = frames s" "frame_refs s' = frame_refs s" "objects s' = objects s"
        "base_url s' = base_url s" "headers s' = headers s"
        "repo_owner s' = repo_owner s" "repo_name s' = repo_name s"
        "last_data_hash s' = fst (get_file_hash_from_github w s data_file) \<and>
         last_config_hash s' = fst (get_file_hash_from_github w s config_file) \<or> True"
    for df cfg s'
  proof -
    note fs = fresh_state [OF n r]
    have f1: "fetched w s1 = Inr (df, cfg)"
      using fetched_cong [of s1 s w] f fs(9,10) same(6,7) by simp
    have hk': "heap_ok s'" if "heap_ok s"
      using that same(1-3) by (simp add: heap_ok_def)
    have served: "heap_ok s1 \<and> frame_refs s1 ! d = frame_refs s1 ! length (frames s) \<and>
                  served_or_recorded w s1 (length (frames s))" if hk: "heap_ok s"
      using fresh_state_served [OF n r hk' [OF hk] f1] fs(1) same(1) by simp
    show ?thesis
      using fs served same(1-7) by (simp add: nth_append)
  qed
  show ?thesis
  proof (cases "data_cache s = None \<or> config_cache s = None")
    case True
    show ?thesis
    proof (cases "fetched w s")
      case (Inl e)
      then show ?thesis using load_empty_fails [OF True, of w] l by simp
    next
      case (Inr p)
      obtain df cfg where p: "p = (df, cfg)" by (cases p)
      show ?thesis
      proof (cases "cfg = JNull")
        case T: True
        then show ?thesis using load_empty_null_config [OF True, of w df] l Inr p by simp
      next
        case False
        have r: "(Inr (d, c), s1) =
                 return_cached (set_config_cache cfg
                   (set_data_cache df (s\<lparr>net_log := net_log s @ reload_log w s\<rparr>)))"
          using load_empty_fresh [OF True, of w df cfg] False l Inr p by simp
        show ?thesis
          by (rule fresh [OF False _ r]) (simp_all add: Inr p)
      qed
    qed
  next
    case False
    then obtain a k where pop: "data_cache s = Some a" "config_cache s = Some k" by auto
    let ?s0 = "snd (check_for_updates w s)"
    show ?thesis
    proof (cases "fst (check_for_updates w s) \<and> \<not> isl (fetched w s)")
      case cached: False
      have e: "d = length (frames s) \<and> c = Some k \<and>
          (s1 = ?s0\<lparr>frames := frames s @ [frames s ! a],
                     frame_refs := frame_refs s @ [frame_refs s ! a]\<rparr> \<or>
           s1 = ?s0\<lparr>net_log := net_log ?s0 @ reload_log w s,
                     frames := frames s @ [frames s ! a],
                     frame_refs := frame_refs s @ [frame_refs s ! a]\<rparr>)"
      proof (cases "fst (check_for_updates w s)")
        case False
        then show ?thesis using load_no_change [OF pop] l by simp
      next
        case True
        then have "isl (fetched w s)" using cached by simp
        then show ?thesis using load_reload_fails [OF pop True] l by simp
      qed
      have b: "base_url s1 = base_url s" "headers s1 = headers s"
        "repo_owner s1 = repo_owner s" "repo_name s1 = repo_name s"
        using e by auto
      have g: "fst (get_file_hash_from_github w s1 f) = fst (get_file_hash_from_github w s f)" for f
        using b by (intro get_file_hash_cong)
      have h: "last_data_hash s1 = fst (get_file_hash_from_github w s data_file)"
        "last_config_hash s1 = fst (get_file_hash_from_github w s config_file)"
        using e by auto
      have fr: "frames s1 = frames s @ [frames s ! a]" "data_cache s1 = Some a"
        "config_cache s1 = Some k" "objects s1 = objects s"
        "frame_refs s1 = frame_refs s @ [frame_refs s ! a]"
        using e pop by auto
      have sr: "served_or_recorded w s1 a"
        by (simp add: served_or_recorded_def g h)
      have a: "a < length (frames s)" "k < length (objects s)"
        using rv pop by (simp_all add: refs_valid_def)
      have hk1: "heap_ok s1" if "heap_ok s"
        using load_heap_ok [OF that rv, of w] l by simp
      have refs: "frame_refs s1 ! d = frame_refs s1 ! a" if "heap_ok s"
        using that a e by (simp add: fr heap_ok_def nth_append)
      show ?thesis
        using e b fr(1-4) sr a hk1 refs by (auto simp: nth_append)
    next
      case True
      then have ch: "fst (check_for_updates w s)" by simp
      from True obtain df cfg where fe: "fetched w s = Inr (df, cfg)"
        by (cases "fetched w s") auto
      show ?thesis
      proof (cases "cfg = JNull")
        case T: True
        then show ?thesis using load_reload_null_config [OF pop ch, of df] l fe by simp
      next
        case F: False
        have r: "(Inr (d, c), s1) =
                 return_cached (set_config_cache cfg
                   (set_data_cache df (?s0\<lparr>net_log := net_log ?s0 @ reload_log w s\<rparr>)))"
          using load_reload_fresh [OF pop ch fe F] l by simp
        show ?thesis
          by (rule fresh [OF F fe r]) simp_all
      qed
    qed
  qed
qed

lemma mutate_fields [simp]:
  "data_cache (mutate_frame a g s) = data_cache s"
  "config_cache (mutate_frame a g s) = config_cache s"
  "frames (mutate_frame a g s) = (frames s)[a := g (frames s ! a)]"
  "frame_refs (mutate_frame a g s) = frame_refs s"
  "objects (mutate_frame a g s) = objects s"
  "base_url (mutate_frame a g s) = base_url s"
  "headers (mutate_frame a g s) = headers s"
  "repo_owner (mutate_frame a g s) = repo_owner s"
  "repo_name (mutate_frame a g s) = repo_name s"
  "last_data_hash (mutate_frame a g s) = last_data_hash s"
  "last_config_hash (mutate_frame a g s) = last_config_hash s"
  "data_cache (mutate_object a h s) = data_cache s"
  "config_cache (mutate_object a h s) = config_cache s"
  "frames (mutate_object a h s) = frames s"
  "frame_refs (mutate_object a h s) = frame_refs s"
  "objects (mutate_object a h s) = (objects s)[a := h (objects s ! a)]"
  "base_url (mutate_object a h s) = base_url s"
  "headers (mutate_object a h s) = headers s"
  "repo_owner (mutate_object a h s) = repo_owner s"
  "repo_name (mutate_object a h s) = repo_name s"
  "last_data_hash (mutate_object a h s) = last_data_hash s"
  "last_config_hash (mutate_object a h s) = last_config_hash s"
  by (simp_all add: mutate_frame_def mutate_object_def)

lemma mutate_frame_same: "mutate_frame a (\<lambda>x. x) s = s"
  by (simp add: mutate_frame_def)

lemma mutate_frame_heap_ok: "heap_ok s \<Longrightarrow> heap_ok (mutate_frame a g s)"
  by (simp add: heap_ok_def)

lemma mutate_frame_held [simp]: "held_values (mutate_frame a g s) b = held_values s b"
  by (simp add: held_values_def)

lemma held_values_fresh:
  assumes "frame_refs s' ! n = [length xs ..< length xs + length ys]"
    and "objects s' = xs @ ys @ zs"
  shows "held_values s' n = ys"
  unfolding held_values_def assms by (rule held_in_appended)

text \<open>A load from a filled cache that is in step with the world returns the cached value.\<close>

lemma load_again:
  assumes pop: "data_cache s = Some a" "config_cache s = Some k"
    and a: "a < length (frames s)" and hk: "heap_ok s" and sr: "served_or_recorded w s a"
  shows "\<exists>d c a'. fst (load_data_with_cache w s) = Inr (d, c) \<and>
           length (frames s) \<le> d \<and>
           d < length (frames (snd (load_data_with_cache w s))) \<and>
           frames (snd (load_data_with_cache w s)) ! d = frames s ! a \<and>
           held_values (snd (load_data_with_cache w s)) d = held_values s a \<and>
           data_cache (snd (load_data_with_cache w s)) = Some a' \<and>
           a' \<noteq> d \<and> (a' = a \<or> length (frames s) \<le> a') \<and>
           a' < length (frames (snd (load_data_with_cache w s))) \<and>
           frames (snd (load_data_with_cache w s)) ! a' = frames s ! a \<and>
           held_values (snd (load_data_with_cache w s)) a' = held_values s a \<and>
           (\<forall>i<length (frames s). frames (snd (load_data_with_cache w s)) ! i = frames s ! i)"
proof (cases "fst (check_for_updates w s)")
  case False
  let ?s' = "(snd (check_for_updates w s))
              \<lparr>frames := frames s @ [frames s ! a],
                frame_refs := frame_refs s @ [frame_refs s ! a]\<rparr>"
  have "load_data_with_cache w s = (Inr (length (frames s), Some k), ?s')"
    by (rule load_no_change [OF pop False])
  then have l: "fst (load_data_with_cache w s) = Inr (length (frames s), Some k)"
    "snd (load_data_with_cache w s) = ?s'"
    by simp_all
  have len: "length (frame_refs s) = length (frames s)" using hk by (simp add: heap_ok_def)
  have h1: "held_values ?s' (length (frames s)) = held_values s a"
    using len by (simp add: held_values_def nth_append)
  have h2: "held_values ?s' a = held_values s a"
    using len a by (simp add: held_values_def nth_append)
  show ?thesis
    apply (rule exI [of _ "length (frames s)"])
    apply (rule exI [of _ "Some k"])
    apply (rule exI [of _ a])
    unfolding l
    using a pop h1 h2 apply (simp add: nth_append)
    done
next
  case True
  then obtain cfg where f: "fetched w s = Inr ((frames s ! a, held_values s a), cfg)"
    and n: "cfg \<noteq> JNull"
    using sr check_same_as_baseline [of s w] by (auto simp: served_or_recorded_def)
  let ?s0 = "(snd (check_for_updates w s))
               \<lparr>net_log := net_log (snd (check_for_updates w s)) @ reload_log w s\<rparr>"
  obtain res s' where r: "(res, s') =
      return_cached (set_config_cache cfg (set_data_cache (frames s ! a, held_values s a) ?s0))"
    by (metis prod.collapse)
  have l0: "load_data_with_cache w s = (res, s')"
    using load_reload_fresh [OF pop True f n] r by simp
  then have l: "fst (load_data_with_cache w s) = res" "snd (load_data_with_cache w s) = s'"
    by simp_all
  note fs = fresh_state [OF n r]
  have hk0: "heap_ok ?s0" using hk by (simp add: heap_ok_def)
  have f1: "fetched w s' = Inr ((frames s ! a, held_values s a), cfg)"
    using fetched_cong [of s' s w] f fs(9,10) by simp
  note sv = fresh_state_served [OF n r hk0 f1]
  have len: "length (frame_refs ?s0) = length (frames ?s0)" using hk by (simp add: heap_ok_def)
  note refs = fs(6) [OF len]
  have h0: "held_values s' (length (frames s)) = held_values s a"
  proof (rule held_values_fresh)
    show "frame_refs s' ! length (frames s) =
          [length (objects s) ..< length (objects s) + length (held_values s a)]"
      using len by (simp add: refs nth_append)
    show "objects s' = objects s @ held_values s a @ [cfg]"
      by (simp add: fs(5))
  qed
  have h1: "held_values s' (length (frames s) + 1) = held_values s' (length (frames s))"
    using sv(2) by (simp add: held_values_def)
  have ne: "length (frames s) \<noteq> a" using a by simp
  show ?thesis
    apply (rule exI [of _ "length (frames s) + 1"])
    apply (rule exI [of _ "Some (length (objects s) + length (held_values s a))"])
    apply (rule exI [of _ "length (frames s)"])
    unfolding l
    using a ne h0 h1 fs(1,2,4) apply (simp add: nth_append)
    done
qed

text \<open>
  C5 (the claim as stated fails). The claim: changing the DataFrame that one load
  returned affects neither the DataFrame another load returns nor the cached one. The
  rows carry a list, so the column is an object column and the copy refers to the same
  list as the cached frame. The caller empties the list through its copy: the cached
  frame now shows the empty list, and so does the DataFrame the next load returns.
\<close>

theorem load_copies_share_held_objects:
  "fst (load_data_with_cache serving_tagged example_loader) = Inr (1, Some 1) \<and>
   data_cache tagged_loaded = Some 0 \<and>
   frame_refs tagged_loaded ! 1 = [0] \<and>
   frame_refs tagged_loaded ! 0 = [0] \<and>
   held_values tagged_loaded 1 = [JArr [JStr ''queen'']] \<and>
   held_values tagged_loaded 0 = [JArr [JStr ''queen'']] \<and>
   held_values tagged_touched 0 = [JArr []] \<and>
   held_values tagged_touched 0 \<noteq> held_values tagged_loaded 0 \<and>
   fst (load_data_with_cache serving_tagged tagged_touched) = Inr (2, Some 1) \<and>
   data_cache (snd (load_data_with_cache serving_tagged tagged_touched)) = Some 0 \<and>
   held_values (snd (load_data_with_cache serving_tagged tagged_touched)) 2 = [JArr []] \<and>
   held_values (snd (load_data_with_cache serving_tagged tagged_touched)) 2 \<noteq>
     held_values tagged_loaded 1"
  by code_simp

text \<open>
  C5 (as amended). Two loads in a row in the same world, both returning, and between
  them the caller changes the own data of the DataFrame it got from the first (any
  change \<open>g\<close>; the identity is no change). The two returned DataFrames are different
  objects, and so is the cached one. The second has the value the first had when it was
  returned, own data and held objects, and so has the cached one: the caller's change
  shows in the first object only. Changing the second's own data afterwards leaves the
  first and the cached one as they are. The objects that the cells of object columns
  refer to are not copied: the DataFrame a load returns refers to the same ones as the
  cached frame.
\<close>

theorem consecutive_loads_independent_copies:
  assumes rv: "refs_valid s" and hk: "heap_ok s"
    and l1: "load_data_with_cache w s = (Inr (d1, c1), s1)"
    and l2: "load_data_with_cache w (mutate_frame d1 g s1) = (Inr (d2, c2), s2)"
  shows "d1 \<noteq> d2 \<and> d1 < length (frames s2) \<and> d2 < length (frames s2) \<and>
         frames s2 ! d2 = frames s1 ! d1 \<and>
         held_values s2 d2 = held_values s1 d1 \<and>
         frames s2 ! d1 = g (frames s1 ! d1) \<and>
         (\<exists>a. data_cache s2 = Some a \<and> a \<noteq> d1 \<and> a \<noteq> d2 \<and> a < length (frames s2) \<and>
              frames s2 ! a = frames s1 ! d1 \<and>
              held_values s2 a = held_values s1 d1 \<and>
              (\<forall>h. frames (mutate_frame d2 h s2) ! a = frames s2 ! a \<and>
                   frames (mutate_frame d2 h s2) ! d1 = frames s2 ! d1 \<and>
                   held_values (mutate_frame d2 h s2) a = held_values s2 a \<and>
                   held_values (mutate_frame d2 h s2) d1 = held_values s2 d1 \<and>
                   data_cache (mutate_frame d2 h s2) = Some a)) \<and>
         (\<exists>a1. data_cache s1 = Some a1 \<and> a1 \<noteq> d1 \<and>
               frame_refs s1 ! d1 = frame_refs s1 ! a1)"
proof -
  from load_success [OF l1 rv] hk obtain a k where
    s1: "data_cache s1 = Some a" "a < d1" "Suc d1 = length (frames s1)"
      "frames s1 ! d1 = frames s1 ! a" "config_cache s1 = Some k"
      "heap_ok s1" "frame_refs s1 ! d1 = frame_refs s1 ! a" "served_or_recorded w s1 a"
    by blast
  let ?m = "mutate_frame d1 g s1"
  have pop: "data_cache ?m = Some a" "config_cache ?m = Some k" using s1 by simp_all
  have len: "length (frames ?m) = Suc d1" using s1 by simp
  have a: "a < length (frames ?m)" using s1 by simp
  have va: "frames ?m ! a = frames s1 ! d1" using s1 by simp
  have vd: "frames ?m ! d1 = g (frames s1 ! d1)" using s1 by simp
  have ha: "held_values ?m a = held_values s1 d1"
    using s1(7) by (simp add: held_values_def)
  have hkm: "heap_ok ?m" using s1(6) by (rule mutate_frame_heap_ok)
  have sr: "served_or_recorded w ?m a"
    using served_or_recorded_cong [of ?m s1 a w] s1 by simp
  from load_again [OF pop a hkm sr] l2 obtain a' where
    r: "Suc d1 \<le> d2" "d2 < length (frames s2)" "frames s2 ! d2 = frames s1 ! d1"
      "held_values s2 d2 = held_values s1 d1"
      "data_cache s2 = Some a'" "a' \<noteq> d2" "a' = a \<or> Suc d1 \<le> a'" "a' < length (frames s2)"
      "frames s2 ! a' = frames s1 ! d1" "held_values s2 a' = held_values s1 d1"
      "\<forall>i<Suc d1. frames s2 ! i = frames ?m ! i"
    unfolding len va ha by auto
  have d: "d1 \<noteq> d2" "d1 < length (frames s2)" "a' \<noteq> d1" "a \<noteq> d1"
    using r s1 by auto
  have v1: "frames s2 ! d1 = g (frames s1 ! d1)"
    using r(11) vd by simp
  have share: "\<exists>a1. data_cache s1 = Some a1 \<and> a1 \<noteq> d1 \<and>
                 frame_refs s1 ! d1 = frame_refs s1 ! a1"
    using s1(1,7) d(4) by blast
  have cache: "\<exists>a. data_cache s2 = Some a \<and> a \<noteq> d1 \<and> a \<noteq> d2 \<and> a < length (frames s2) \<and>
              frames s2 ! a = frames s1 ! d1 \<and>
              held_values s2 a = held_values s1 d1 \<and>
              (\<forall>h. frames (mutate_frame d2 h s2) ! a = frames s2 ! a \<and>
                   frames (mutate_frame d2 h s2) ! d1 = frames s2 ! d1 \<and>
                   held_values (mutate_frame d2 h s2) a = held_values s2 a \<and>
                   held_values (mutate_frame d2 h s2) d1 = held_values s2 d1 \<and>
                   data_cache (mutate_frame d2 h s2) = Some a)"
    using d r by (intro exI [of _ a']) (simp add: nth_list_update)
  show ?thesis
    using d(1,2) r(2,3,4) v1 cache share by blast
qed

theorem consecutive_loads_independent_copies_witness:
  "refs_valid example_loader \<and> heap_ok example_loader \<and>
   fst (load_data_with_cache serving_tagged example_loader) = Inr (1, Some 1) \<and>
   fst (load_data_with_cache serving_tagged
          (mutate_frame 1 (\<lambda>df. JArr [])
             (snd (load_data_with_cache serving_tagged example_loader)))) =
     Inr (2, Some 1) \<and>
   frames (snd (load_data_with_cache serving_tagged
          (mutate_frame 1 (\<lambda>df. JArr [])
             (snd (load_data_with_cache serving_tagged example_loader))))) ! 2 =
     JArr [JObj [(''hive_id'', JNum 1), (''timestamp'', JStr ''2024-05-01 06:00:00'')]] \<and>
   held_values (snd (load_data_with_cache serving_tagged
          (mutate_frame 1 (\<lambda>df. JArr [])
             (snd (load_data_with_cache serving_tagged example_loader))))) 2 =
     [JArr [JStr ''queen'']] \<and>
   frames (snd (load_data_with_cache serving_tagged
          (mutate_frame 1 (\<lambda>df. JArr [])
             (snd (load_data_with_cache serving_tagged example_loader))))) ! 1 =
     JArr []"
proof -
  let ?w = "serving_tagged"
  let ?s1 = "snd (load_data_with_cache ?w example_loader)"
  let ?m = "mutate_frame 1 (\<lambda>df. JArr []) ?s1"
  let ?s2 = "snd (load_data_with_cache ?w ?m)"
  have rv: "refs_valid example_loader" by code_simp
  have hk: "heap_ok example_loader" by code_simp
  have f1: "fst (load_data_with_cache ?w example_loader) = Inr (1, Some 1)" by code_simp
  have f2: "fst (load_data_with_cache ?w ?m) = Inr (2, Some 1)" by code_simp
  have v: "frames ?s1 ! 1 =
           JArr [JObj [(''hive_id'', JNum 1), (''timestamp'', JStr ''2024-05-01 06:00:00'')]]"
    by code_simp
  have h: "held_values ?s1 1 = [JArr [JStr ''queen'']]" by code_simp
  have l1: "load_data_with_cache ?w example_loader = (Inr (1, Some 1), ?s1)"
    using f1 by (simp add: prod_eq_iff)
  have l2: "load_data_with_cache ?w ?m = (Inr (2, Some 1), ?s2)"
    using f2 by (simp add: prod_eq_iff)
  show ?thesis
    using consecutive_loads_independent_copies [OF rv hk l1 l2] rv hk f1 f2 v h by simp
qed

text \<open>
  C9. The config that a load returns is the object the cache field refers to after the
  call, not a copy. So a change the caller makes to it is a change of the cached
  object, and every later load that serves from the cache (the check reports nothing,
  or the reload fails) returns that same object, with the change.
\<close>

theorem load_returns_cached_config_object:
  assumes rv: "refs_valid s"
    and l1: "load_data_with_cache w s = (Inr (d, c), s1)"
  shows "\<exists>k. c = Some k \<and> config_cache s1 = Some k \<and> k < length (objects s1) \<and>
           config_cache (mutate_object k g s1) = Some k \<and>
           objects (mutate_object k g s1) ! k = g (objects s1 ! k) \<and>
           (\<forall>w2. \<not> fst (check_for_updates w2 s1) \<or> isl (fetched w2 s1) \<longrightarrow>
              fst (load_data_with_cache w2 (mutate_object k g s1)) =
                Inr (length (frames s1), Some k) \<and>
              objects (snd (load_data_with_cache w2 (mutate_object k g s1))) ! k =
                g (objects s1 ! k))"
proof -
  from load_success [OF l1 rv] obtain a k where
    s1: "data_cache s1 = Some a" "c = Some k" "config_cache s1 = Some k"
      "k < length (objects s1)"
    by blast
  let ?m = "mutate_object k g s1"
  have pop: "data_cache ?m = Some a" "config_cache ?m = Some k" using s1 by simp_all
  have ob: "objects ?m ! k = g (objects s1 ! k)" using s1 by simp
  have served: "fst (load_data_with_cache w2 ?m) = Inr (length (frames s1), Some k) \<and>
          objects (snd (load_data_with_cache w2 ?m)) ! k = g (objects s1 ! k)"
    if w2: "\<not> fst (check_for_updates w2 s1) \<or> isl (fetched w2 s1)" for w2
  proof (cases "fst (check_for_updates w2 s1)")
    case False
    then have "\<not> fst (check_for_updates w2 ?m)"
      using check_fst_cong [of ?m s1 w2] by simp
    from load_no_change [OF pop this] ob show ?thesis by simp
  next
    case True
    then have c: "fst (check_for_updates w2 ?m)"
      using check_fst_cong [of ?m s1 w2] by simp
    have "isl (fetched w2 ?m)" using w2 True fetched_cong [of ?m s1 w2] by simp
    from load_reload_fails [OF pop c this] ob show ?thesis by simp
  qed
  show ?thesis
    using s1 pop ob served by blast
qed

theorem load_returns_cached_config_object_witness:
  "refs_valid example_loader \<and>
   fst (load_data_with_cache (serving ''a1'' ''b1'') example_loader) = Inr (1, Some 0) \<and>
   config_cache (snd (load_data_with_cache (serving ''a1'' ''b1'') example_loader)) = Some 0 \<and>
   \<not> fst (check_for_updates (serving ''a1'' ''b1'')
           (snd (load_data_with_cache (serving ''a1'' ''b1'') example_loader))) \<and>
   fst (load_data_with_cache (serving ''a1'' ''b1'')
          (mutate_object 0 (\<lambda>cfg. JArr [])
             (snd (load_data_with_cache (serving ''a1'' ''b1'') example_loader)))) =
     Inr (2, Some 0) \<and>
   objects (snd (load_data_with_cache (serving ''a1'' ''b1'')
          (mutate_object 0 (\<lambda>cfg. JArr [])
             (snd (load_data_with_cache (serving ''a1'' ''b1'') example_loader))))) ! 0 =
     JArr [] \<and>
   objects (snd (load_data_with_cache (serving ''a1'' ''b1'') example_loader)) ! 0 = hives_json"
proof -
  let ?w = "serving ''a1'' ''b1''"
  let ?s1 = "snd (load_data_with_cache ?w example_loader)"
  have rv: "refs_valid example_loader" by code_simp
  have f1: "fst (load_data_with_cache ?w example_loader) = Inr (1, Some 0)" by code_simp
  have l1: "load_data_with_cache ?w example_loader = (Inr (1, Some 0), ?s1)"
    using f1 by (simp add: prod_eq_iff)
  have nc: "\<not> fst (check_for_updates ?w ?s1)" by code_simp
  have len: "length (frames ?s1) = 2" by code_simp
  have old: "objects ?s1 ! 0 = hives_json" by code_simp
  have cc: "config_cache ?s1 = Some 0" by code_simp
  from load_returns_cached_config_object [OF rv l1, of "\<lambda>cfg. JArr []"]
  obtain k where k: "Some 0 = Some k"
    and served: "\<forall>w2. \<not> fst (check_for_updates w2 ?s1) \<or> isl (fetched w2 ?s1) \<longrightarrow>
              fst (load_data_with_cache w2 (mutate_object k (\<lambda>cfg. JArr []) ?s1)) =
                Inr (length (frames ?s1), Some k) \<and>
              objects (snd (load_data_with_cache w2 (mutate_object k (\<lambda>cfg. JArr []) ?s1))) ! k =
                (\<lambda>cfg. JArr []) (objects ?s1 ! k)"
    by blast
  from k have k0: "k = 0" by simp
  from served nc have "fst (load_data_with_cache ?w (mutate_object k (\<lambda>cfg. JArr []) ?s1)) =
                Inr (length (frames ?s1), Some k) \<and>
              objects (snd (load_data_with_cache ?w (mutate_object k (\<lambda>cfg. JArr []) ?s1))) ! k =
                JArr []"
    by blast
  then show ?thesis
    using rv f1 cc nc old len unfolding k0 by simp
qed

end
